theory Spec2Isabelle
  imports Complex_Main
begin

section \<open>Numbers\<close>

text \<open>
  The particle field of \<^verbatim>\<open>Canvas\<close> (the third class of
  \<^verbatim>\<open>src/js/context/webgl/Sphere.ts\<close>, lines 270--607) computes on JavaScript
  numbers. A number is modelled as a real, \<open>+Infinity\<close>, \<open>-Infinity\<close> or \<open>NaN\<close>, with the
  arithmetic and the comparisons of IEEE 754 on them: a comparison with \<open>NaN\<close> is false,
  and \<open>Infinity - Infinity\<close>, \<open>0 * Infinity\<close> and \<open>0 / 0\<close> are \<open>NaN\<close>. Rounding and the sign
  of zero are left out (\<open>Fin 0\<close> is \<open>+0\<close>), and an operation on two reals gives their
  exact result. In the program such a result may also be rounded or overflow to an
  infinity; therefore the properties of the wrap below are stated for every state of a
  particle, the ones with infinite and \<open>NaN\<close> components included.
\<close>

datatype jsnum = Fin real | PosInf | NegInf | NaN

instantiation jsnum :: "{zero, one, plus, uminus, minus, times, inverse, ord}"
begin

definition zero_jsnum :: jsnum where
  "zero_jsnum = Fin 0"

definition one_jsnum :: jsnum where
  "one_jsnum = Fin 1"

fun uminus_jsnum :: "jsnum \<Rightarrow> jsnum" where
  "uminus_jsnum (Fin a) = Fin (- a)"
| "uminus_jsnum PosInf = NegInf"
| "uminus_jsnum NegInf = PosInf"
| "uminus_jsnum NaN = NaN"

fun plus_jsnum :: "jsnum \<Rightarrow> jsnum \<Rightarrow> jsnum" where
  "plus_jsnum NaN b = NaN"
| "plus_jsnum a NaN = NaN"
| "plus_jsnum (Fin a) (Fin b) = Fin (a + b)"
| "plus_jsnum PosInf NegInf = NaN"
| "plus_jsnum NegInf PosInf = NaN"
| "plus_jsnum PosInf b = PosInf"
| "plus_jsnum a PosInf = PosInf"
| "plus_jsnum NegInf b = NegInf"
| "plus_jsnum a NegInf = NegInf"

definition minus_jsnum :: "jsnum \<Rightarrow> jsnum \<Rightarrow> jsnum" where
  "minus_jsnum a b = a + (- b)"

fun times_jsnum :: "jsnum \<Rightarrow> jsnum \<Rightarrow> jsnum" where
  "times_jsnum NaN b = NaN"
| "times_jsnum a NaN = NaN"
| "times_jsnum (Fin a) (Fin b) = Fin (a * b)"
| "times_jsnum PosInf (Fin b) = (if b = 0 then NaN else if b > 0 then PosInf else NegInf)"
| "times_jsnum NegInf (Fin b) = (if b = 0 then NaN else if b > 0 then NegInf else PosInf)"
| "times_jsnum (Fin a) PosInf = (if a = 0 then NaN else if a > 0 then PosInf else NegInf)"
| "times_jsnum (Fin a) NegInf = (if a = 0 then NaN else if a > 0 then NegInf else PosInf)"
| "times_jsnum PosInf PosInf = PosInf"
| "times_jsnum PosInf NegInf = NegInf"
| "times_jsnum NegInf PosInf = NegInf"
| "times_jsnum NegInf NegInf = PosInf"

fun divide_jsnum :: "jsnum \<Rightarrow> jsnum \<Rightarrow> jsnum" where
  "divide_jsnum NaN b = NaN"
| "divide_jsnum a NaN = NaN"
| "divide_jsnum (Fin a) (Fin b) =
     (if b = 0 then (if a = 0 then NaN else if a > 0 then PosInf else NegInf)
      else Fin (a / b))"
| "divide_jsnum (Fin a) PosInf = Fin 0"
| "divide_jsnum (Fin a) NegInf = Fin 0"
| "divide_jsnum PosInf (Fin b) = (if b \<ge> 0 then PosInf else NegInf)"
| "divide_jsnum NegInf (Fin b) = (if b \<ge> 0 then NegInf else PosInf)"
| "divide_jsnum PosInf PosInf = NaN"
| "divide_jsnum PosInf NegInf = NaN"
| "divide_jsnum NegInf PosInf = NaN"
| "divide_jsnum NegInf NegInf = NaN"

definition inverse_jsnum :: "jsnum \<Rightarrow> jsnum" where
  "inverse_jsnum a = divide (Fin 1) a"

fun less_jsnum :: "jsnum \<Rightarrow> jsnum \<Rightarrow> bool" where
  "less_jsnum NaN b = False"
| "less_jsnum a NaN = False"
| "less_jsnum (Fin a) (Fin b) = (a < b)"
| "less_jsnum PosInf b = False"
| "less_jsnum a PosInf = True"
| "less_jsnum NegInf NegInf = False"
| "less_jsnum NegInf b = True"
| "less_jsnum a NegInf = False"

fun less_eq_jsnum :: "jsnum \<Rightarrow> jsnum \<Rightarrow> bool" where
  "less_eq_jsnum NaN b = False"
| "less_eq_jsnum a NaN = False"
| "less_eq_jsnum (Fin a) (Fin b) = (a \<le> b)"
| "less_eq_jsnum PosInf PosInf = True"
| "less_eq_jsnum PosInf b = False"
| "less_eq_jsnum a PosInf = True"
| "less_eq_jsnum NegInf b = True"
| "less_eq_jsnum a NegInf = False"

instance ..

end

text \<open>
  Without rounding the addition is associative and commutative with the neutral element
  0, so the sum of a list of numbers is at hand.
\<close>

instance jsnum :: comm_monoid_add
proof
  fix p q r :: jsnum
  show "p + q = q + p"
    by (cases p; cases q; simp)
  show "p + q + r = p + (q + r)"
    by (cases p; cases q; cases r; simp)
  show "0 + p = p"
    by (cases p; simp add: zero_jsnum_def)
qed

text \<open>\<^verbatim>\<open>Math.sqrt\<close>, \<^verbatim>\<open>Math.cos\<close> and \<^verbatim>\<open>Math.sin\<close>.\<close>

fun Math_sqrt :: "jsnum \<Rightarrow> jsnum" where
  "Math_sqrt (Fin a) = (if a < 0 then NaN else Fin (sqrt a))"
| "Math_sqrt PosInf = PosInf"
| "Math_sqrt NegInf = NaN"
| "Math_sqrt NaN = NaN"

fun Math_cos :: "jsnum \<Rightarrow> jsnum" where
  "Math_cos (Fin a) = Fin (cos a)"
| "Math_cos a = NaN"

fun Math_sin :: "jsnum \<Rightarrow> jsnum" where
  "Math_sin (Fin a) = Fin (sin a)"
| "Math_sin a = NaN"

text \<open>\<^verbatim>\<open>a || b\<close>: \<open>b\<close> when \<open>a\<close> is falsy, which for a number is 0 or \<open>NaN\<close>.\<close>

definition orElse :: "jsnum \<Rightarrow> jsnum \<Rightarrow> jsnum" where
  "orElse a b = (if a = Fin 0 \<or> a = NaN then b else a)"

section \<open>Vectors\<close>

record 'a vector3 =
  x :: 'a
  y :: 'a
  z :: 'a

text \<open>\<^verbatim>\<open>new THREE.Vector3(a, b, c)\<close>\<close>

definition Vector3 :: "jsnum \<Rightarrow> jsnum \<Rightarrow> jsnum \<Rightarrow> jsnum vector3" where
  "Vector3 a b c = \<lparr>x = a, y = b, z = c\<rparr>"

text \<open>\<^verbatim>\<open>Vector3.length()\<close>: \<^verbatim>\<open>Math.sqrt(x*x + y*y + z*z)\<close>\<close>

definition lengthV :: "jsnum vector3 \<Rightarrow> jsnum" where
  "lengthV v = Math_sqrt (x v * x v + y v * y v + z v * z v)"

definition multiplyScalar :: "jsnum vector3 \<Rightarrow> jsnum \<Rightarrow> jsnum vector3" where
  "multiplyScalar v s = \<lparr>x = x v * s, y = y v * s, z = z v * s\<rparr>"

definition divideScalar :: "jsnum vector3 \<Rightarrow> jsnum \<Rightarrow> jsnum vector3" where
  "divideScalar v s = multiplyScalar v (Fin 1 / s)"

text \<open>
  \<^verbatim>\<open>Vector3.normalize()\<close>: \<^verbatim>\<open>this.divideScalar(this.length() || 1)\<close>; a length
  of 0 is falsy, so the zero vector is divided by 1 and stays the zero vector.
\<close>

definition normalizeV :: "jsnum vector3 \<Rightarrow> jsnum vector3" where
  "normalizeV v = divideScalar v (orElse (lengthV v) (Fin 1))"

text \<open>\<^verbatim>\<open>THREE.Math.randFloat(low, high)\<close>, with \<open>r\<close> the value \<^verbatim>\<open>Math.random()\<close> returns.\<close>

definition randFloat :: "jsnum \<Rightarrow> jsnum \<Rightarrow> jsnum \<Rightarrow> jsnum" where
  "randFloat r low high = low + r * (high - low)"

section \<open>Particles\<close>

text \<open>
  A particle is a \<^verbatim>\<open>THREE.Vector3\<close> (its position) that \<^verbatim>\<open>boot\<close> extends with the
  properties \<^verbatim>\<open>velocity\<close>, \<^verbatim>\<open>force\<close>, \<^verbatim>\<open>friction\<close> and \<^verbatim>\<open>mass\<close>.
\<close>

record 'a vertex = "'a vector3" +
  velocity :: "'a vector3"
  force :: "'a vector3"
  friction :: 'a
  mass :: 'a

datatype forcePhase = Attraction | Repulsion

text \<open>The module constant \<^verbatim>\<open>defaults\<close> (lines 279--286).\<close>

record options =
  len :: nat
  depth :: jsnum
  speedHorizontal :: jsnum
  speedVertical :: jsnum

definition defaults :: options where
  "defaults = \<lparr>len = 10000, depth = Fin 0, speedHorizontal = Fin 1, speedVertical = Fin 1.5\<rparr>"

section \<open>The force helpers\<close>

text \<open>
  The flag \<^verbatim>\<open>bAmCloseEnough\<close> of both helpers (lines 563--569 and 591--597), as a
  function of the radius and of the distance.
\<close>

definition bAmCloseEnough :: "jsnum \<Rightarrow> jsnum \<Rightarrow> bool" where
  "bAmCloseEnough radius dlen =
     (if radius > Fin 0 then (if dlen > radius then False else True) else True)"

text \<open>\<^verbatim>\<open>attraction(vertex, forceX, forceY, forceZ, radius, scale)\<close>, lines 553--578.\<close>

definition attraction ::
  "jsnum vertex \<Rightarrow> jsnum \<Rightarrow> jsnum \<Rightarrow> jsnum \<Rightarrow> jsnum \<Rightarrow> jsnum \<Rightarrow> jsnum vertex" where
  "attraction vertex forceX forceY forceZ radius scale =
     (let centre = Vector3 forceX forceY forceZ;
          diff = Vector3 (x vertex - x centre) (y vertex - y centre) (z vertex - z centre);
          dlen = lengthV diff
      in if bAmCloseEnough radius dlen then
           (let pct = Fin 1 - dlen / radius;
                n = normalizeV diff;
                fx = x (force vertex) - x n * scale * pct;
                fy = y (force vertex) - y n * scale * pct;
                fz = fy - y n * scale * pct
            in vertex\<lparr>force := \<lparr>x = fx, y = fy, z = fz\<rparr>\<rparr>)
         else vertex)"

text \<open>\<^verbatim>\<open>repulsion(vertex, forceX, forceY, forceZ, radius, scale)\<close>, lines 581--606.\<close>

definition repulsion ::
  "jsnum vertex \<Rightarrow> jsnum \<Rightarrow> jsnum \<Rightarrow> jsnum \<Rightarrow> jsnum \<Rightarrow> jsnum \<Rightarrow> jsnum vertex" where
  "repulsion vertex forceX forceY forceZ radius scale =
     (let centre = Vector3 forceX forceY forceZ;
          diff = Vector3 (x vertex - x centre) (y vertex - y centre) (z vertex - z centre);
          dlen = lengthV diff
      in if bAmCloseEnough radius dlen then
           (let pct = Fin 1 - dlen / radius;
                n = normalizeV diff;
                fx = x (force vertex) + x n * scale * pct;
                fy = y (force vertex) + y n * scale * pct;
                fz = fy + y n * scale * pct
            in vertex\<lparr>force := \<lparr>x = fx, y = fy, z = fz\<rparr>\<rparr>)
         else vertex)"

section \<open>The update of one particle\<close>

text \<open>
  \<^verbatim>\<open>_vertexUpdate(vertex, posOfForce, deltaTime)\<close>, lines 474--550, in its four
  consecutive parts. What the method reads from \<^verbatim>\<open>this\<close> and from the module is passed
  as arguments: the force phase, the window size \<^verbatim>\<open>this.ww\<close>, \<^verbatim>\<open>this.wh\<close> (the store's
  \<^verbatim>\<open>windowWidth\<close> and \<^verbatim>\<open>windowHeight\<close>) and \<^verbatim>\<open>defaults\<close>.
\<close>

text \<open>Lines 475--479: \<^verbatim>\<open>vertex.force.set(...)\<close>.\<close>

definition recombine :: "jsnum vertex \<Rightarrow> jsnum \<Rightarrow> jsnum vertex" where
  "recombine vertex deltaTime =
     vertex\<lparr>force :=
       \<lparr>x = (x (force vertex) - x (velocity vertex) * friction vertex) * Fin 0.41 * deltaTime,
        y = (y (force vertex) - y (velocity vertex) * friction vertex) * Fin 0.41 * deltaTime,
        z = (z (force vertex) - z (velocity vertex) * friction vertex) * Fin 0.41 * deltaTime\<rparr>\<rparr>"

text \<open>Lines 481--515: the two contributions chosen by the force phase.\<close>

definition applyForces :: "forcePhase \<Rightarrow> jsnum vertex \<Rightarrow> jsnum vector3 \<Rightarrow> jsnum vertex" where
  "applyForces phase vertex pof =
     (case phase of
        Attraction \<Rightarrow>
          repulsion (attraction vertex (x pof) (y pof) (z pof) (Fin 900) (Fin 0.02))
            (x pof * Fin 0.5) (y pof * Fin 0.5) (z pof * Fin 0.5) (Fin 200) (Fin 0.02)
      | Repulsion \<Rightarrow>
          repulsion
            (attraction vertex (x pof * Fin (- 0.5)) (y pof * Fin (- 0.5)) (z pof * Fin (- 0.5))
               (Fin 500) (Fin 0.02))
            (x pof) (y pof) (z pof) (Fin 300) (Fin 0.02))"

text \<open>Lines 517--523: the velocity first, then the position from the new velocity.\<close>

definition integrate :: "jsnum vertex \<Rightarrow> jsnum \<Rightarrow> jsnum vertex" where
  "integrate vertex deltaTime =
     (let v1 = vertex\<lparr>velocity :=
            \<lparr>x = x (velocity vertex) + x (force vertex) * Fin 0.41 * deltaTime,
             y = y (velocity vertex) + y (force vertex) * Fin 0.41 * deltaTime,
             z = z (velocity vertex) + z (force vertex) * Fin 0.41 * deltaTime\<rparr>\<rparr>
      in v1\<lparr>x := x v1 + x (velocity v1) * deltaTime,
            y := y v1 + y (velocity v1) * deltaTime,
            z := z v1 + z (velocity v1) * deltaTime\<rparr>)"

text \<open>
  Lines 525--549: six independent tests, in the order of the source. Each test is false
  on a coordinate that is \<open>NaN\<close>, which then stays.
\<close>

definition wrap :: "options \<Rightarrow> jsnum \<Rightarrow> jsnum \<Rightarrow> jsnum vertex \<Rightarrow> jsnum vertex" where
  "wrap d w h vertex =
     (let v1 = (if x vertex > w then vertex\<lparr>x := - w\<rparr> else vertex);
          v2 = (if y v1 > h then v1\<lparr>y := - h\<rparr> else v1);
          v3 = (if z v2 > depth d then v2\<lparr>z := - depth d\<rparr> else v2);
          v4 = (if x v3 < - w then v3\<lparr>x := w\<rparr> else v3);
          v5 = (if y v4 < - h then v4\<lparr>y := h\<rparr> else v4);
          v6 = (if z v5 < - depth d then v5\<lparr>z := depth d\<rparr> else v5)
      in v6)"

definition vertexUpdate ::
  "options \<Rightarrow> forcePhase \<Rightarrow> jsnum \<Rightarrow> jsnum \<Rightarrow> jsnum vertex \<Rightarrow> jsnum vector3 \<Rightarrow> jsnum \<Rightarrow>
   jsnum vertex" where
  "vertexUpdate d phase w h vertex pof deltaTime =
     wrap d w h (integrate (applyForces phase (recombine vertex deltaTime) pof) deltaTime)"

section \<open>The simulator\<close>

text \<open>
  The fields of \<^verbatim>\<open>Canvas\<close> that the simulation reads and writes (lines 310--314), with
  \<^verbatim>\<open>_app.geometry.vertices\<close> as \<open>vertices\<close>. \<^verbatim>\<open>_tick\<close> starts as \<^verbatim>\<open>null\<close>, here
  \<open>None\<close>.
\<close>

record canvas =
  vertices :: "jsnum vertex list"
  posOfForce :: "jsnum vector3"
  tick :: "jsnum option"
  forcePhase :: forcePhase
  frameCount :: nat

text \<open>
  What one call of \<^verbatim>\<open>_update\<close> receives from outside: the value that
  \<^verbatim>\<open>this._clock.getDelta()\<close> returns (the seconds of wall-clock time since the call
  before; 0 in the first call, which starts the clock), the ticker's argument
  \<^verbatim>\<open>deltaTime\<close>, and the store's window size.
\<close>

record frame =
  clockDelta :: jsnum
  deltaTime :: jsnum
  ww :: jsnum
  wh :: jsnum

text \<open>
  \<open>TypeError\<close> is what JavaScript throws on reading a property of \<^verbatim>\<open>undefined\<close>.
  \<open>InvalidConfiguration\<close> and \<open>DegenerateForceRadius\<close> are the error names of the
  specification; no statement of the source raises them.
\<close>

datatype error = TypeError | InvalidConfiguration | DegenerateForceRadius

text \<open>The field initialisers of the class.\<close>

definition constructor :: canvas where
  "constructor =
     \<lparr>vertices = [], posOfForce = Vector3 (Fin 0) (Fin 0) (Fin 0), tick = None,
      forcePhase = Attraction, frameCount = 1\<rparr>"

text \<open>
  The body of the loop of \<^verbatim>\<open>boot\<close> (lines 395--403) for the particle of index \<open>i\<close>;
  \<open>rnd k\<close> is the value of the \<open>k\<close>-th call of \<^verbatim>\<open>Math.random()\<close>, \<open>iw\<close> and \<open>ih\<close>
  are \<^verbatim>\<open>window.innerWidth\<close> and \<^verbatim>\<open>window.innerHeight\<close>.
\<close>

definition newVertex :: "options \<Rightarrow> jsnum \<Rightarrow> jsnum \<Rightarrow> (nat \<Rightarrow> jsnum) \<Rightarrow> nat \<Rightarrow> jsnum vertex" where
  "newVertex d iw ih rnd i =
     \<lparr>x = randFloat (rnd (3 * i)) (- iw) iw,
      y = randFloat (rnd (3 * i + 1)) (- ih) ih,
      z = randFloat (rnd (3 * i + 2)) (- depth d) (depth d),
      velocity = Vector3 (Fin 0) (Fin 0) (Fin 0),
      force = Vector3 (Fin 0) (Fin 0) (Fin 0),
      friction = Fin 0.01,
      mass = Fin 1\<rparr>"

text \<open>
  \<^verbatim>\<open>boot()\<close>, lines 367--420: a new geometry, and \<^verbatim>\<open>defaults.len\<close> particles pushed
  onto it. The method has no \<^verbatim>\<open>throw\<close> and no test of its inputs, so the result is
  always \<open>Inr\<close>.
\<close>

definition boot :: "options \<Rightarrow> jsnum \<Rightarrow> jsnum \<Rightarrow> (nat \<Rightarrow> jsnum) \<Rightarrow> canvas \<Rightarrow> error + canvas" where
  "boot d iw ih rnd c = Inr (c\<lparr>vertices := map (newVertex d iw ih rnd) [0..<len d]\<rparr>)"

text \<open>
  The loop of lines 452--455, \<^verbatim>\<open>for (let i = 0; i < defaults.len; i++)\<close>, with \<open>k\<close> the
  number of rounds that remain. \<^verbatim>\<open>vertices[i]\<close> beyond the end of the array is
  \<^verbatim>\<open>undefined\<close>, and \<^verbatim>\<open>_vertexUpdate\<close> throws on reading its \<^verbatim>\<open>force\<close>.
\<close>

fun forEachIndex :: "('a \<Rightarrow> 'a) \<Rightarrow> nat \<Rightarrow> nat \<Rightarrow> 'a list \<Rightarrow> error + 'a list" where
  "forEachIndex f i 0 vs = Inr vs"
| "forEachIndex f i (Suc k) vs =
     (if i < length vs then forEachIndex f (Suc i) k (vs[i := f (vs ! i)])
      else Inl TypeError)"

text \<open>
  Lines 433--435 of \<^verbatim>\<open>_update(deltaTime)\<close>: the new value of \<^verbatim>\<open>_tick\<close>;
  \<^verbatim>\<open>null + n\<close> is \<^verbatim>\<open>0 + n\<close> in JavaScript.
\<close>

definition nextTick :: "frame \<Rightarrow> canvas \<Rightarrow> jsnum" where
  "nextTick fr c =
     (case tick c of None \<Rightarrow> Fin 0 | Some t \<Rightarrow> t) + clockDelta fr * Fin 0.1 * deltaTime fr"

text \<open>Lines 437--450: the position of the force for the new value \<open>t\<close> of \<^verbatim>\<open>_tick\<close>.\<close>

definition centre :: "options \<Rightarrow> frame \<Rightarrow> jsnum \<Rightarrow> jsnum vector3" where
  "centre d fr t =
     (if t < Fin 1 then
        Vector3 (Math_cos (t * speedHorizontal d) * Fin 50 * deltaTime fr)
                (Math_sin (t * speedVertical d) * Fin 50 * deltaTime fr) (Fin 0)
      else
        Vector3 (Math_cos (t * speedHorizontal d) * ww fr * Fin (- 0.5) * deltaTime fr)
                (Math_sin (t * speedVertical d) * wh fr * Fin 0.5 * deltaTime fr) (Fin 0))"

text \<open>Lines 457--463: the force phase after the call.\<close>

definition nextPhase :: "canvas \<Rightarrow> forcePhase" where
  "nextPhase c =
     (if frameCount c mod (60 * 8) = 0 then
        (case forcePhase c of Attraction \<Rightarrow> Repulsion | Repulsion \<Rightarrow> Attraction)
      else forcePhase c)"

text \<open>
  \<^verbatim>\<open>_update(deltaTime)\<close>, lines 430--468: the particles are updated under the phase
  the call started with, then the phase is switched and the frame counted.
\<close>

definition update :: "options \<Rightarrow> frame \<Rightarrow> canvas \<Rightarrow> error + canvas" where
  "update d fr c =
     (let t = nextTick fr c;
          p = centre d fr t
      in case forEachIndex
                (\<lambda>particle. vertexUpdate d (forcePhase c) (ww fr) (wh fr) particle p (deltaTime fr))
                0 (len d) (vertices c) of
           Inl e \<Rightarrow> Inl e
         | Inr vs \<Rightarrow>
             Inr (c\<lparr>tick := Some t, posOfForce := p, vertices := vs,
                    forcePhase := nextPhase c, frameCount := frameCount c + 1\<rparr>))"

text \<open>The ticker calls \<^verbatim>\<open>_update\<close> once per frame; an exception ends the run.\<close>

fun run :: "options \<Rightarrow> frame list \<Rightarrow> canvas \<Rightarrow> error + canvas" where
  "run d [] c = Inr c"
| "run d (fr # frs) c = (case update d fr c of Inl e \<Rightarrow> Inl e | Inr c' \<Rightarrow> run d frs c')"

text \<open>The life of a \<^verbatim>\<open>Canvas\<close>: constructed, booted, then updated once per frame.\<close>

definition session ::
  "options \<Rightarrow> jsnum \<Rightarrow> jsnum \<Rightarrow> (nat \<Rightarrow> jsnum) \<Rightarrow> frame list \<Rightarrow> error + canvas" where
  "session d iw ih rnd frs =
     (case boot d iw ih rnd constructor of Inl e \<Rightarrow> Inl e | Inr c \<Rightarrow> run d frs c)"

section \<open>Measuring a change of the force\<close>



text \<open>\<^verbatim>\<open>Number.isFinite\<close>: neither an infinity nor \<open>NaN\<close>.\<close>

fun isFinite :: "jsnum \<Rightarrow> bool" where
  "isFinite (Fin a) = True"
| "isFinite a = False"

text \<open>A vector and a particle all of whose numbers are reals.\<close>

definition finV :: "real vector3 \<Rightarrow> jsnum vector3" where
  "finV v = \<lparr>x = Fin (x v), y = Fin (y v), z = Fin (z v)\<rparr>"

definition finVertex :: "real vertex \<Rightarrow> jsnum vertex" where
  "finVertex v =
     \<lparr>x = Fin (x v), y = Fin (y v), z = Fin (z v), velocity = finV (velocity v),
      force = finV (force v), friction = Fin (friction v), mass = Fin (mass v)\<rparr>"

section \<open>Facts about the numbers and the wrap\<close>

lemma minus_Fin [simp]: "Fin a - Fin b = Fin (a - b)"
  by (simp add: minus_jsnum_def)

lemma less_jsnum_irrefl [simp]: "\<not> a < (a::jsnum)"
  by (cases a) simp_all

lemma vertex_position_of_update [simp]:
  "x (v\<lparr>velocity := a\<rparr>) = x (v::'a vertex)" "y (v\<lparr>velocity := a\<rparr>) = y v"
  "z (v\<lparr>velocity := a\<rparr>) = z v" "x (v\<lparr>force := a\<rparr>) = x v"
  "y (v\<lparr>force := a\<rparr>) = y v" "z (v\<lparr>force := a\<rparr>) = z v"
  by (cases v; simp)+

lemma vertex_fields_of_move [simp]:
  "velocity (v\<lparr>x := r\<rparr>) = velocity (v::'a vertex)" "velocity (v\<lparr>y := r\<rparr>) = velocity v"
  "velocity (v\<lparr>z := r\<rparr>) = velocity v" "force (v\<lparr>x := r\<rparr>) = force v"
  "force (v\<lparr>y := r\<rparr>) = force v" "force (v\<lparr>z := r\<rparr>) = force v"
  "friction (v\<lparr>x := r\<rparr>) = friction v" "friction (v\<lparr>y := r\<rparr>) = friction v"
  "friction (v\<lparr>z := r\<rparr>) = friction v" "mass (v\<lparr>x := r\<rparr>) = mass v"
  "mass (v\<lparr>y := r\<rparr>) = mass v" "mass (v\<lparr>z := r\<rparr>) = mass v"
  by (cases v; simp)+

lemma wrap_velocity: "velocity (wrap d w h v) = velocity v"
  by (simp add: wrap_def Let_def)

lemma wrap_force: "force (wrap d w h v) = force v"
  by (simp add: wrap_def Let_def)

lemma wrap_friction: "friction (wrap d w h v) = friction v"
  by (simp add: wrap_def Let_def)

lemma wrap_mass: "mass (wrap d w h v) = mass v"
  by (simp add: wrap_def Let_def)

lemma wrap_x:
  "x (wrap d w h v) = (if x v > w then - w else if x v < - w then w else x v)"
  by (simp add: wrap_def Let_def)

lemma wrap_y:
  "y (wrap d w h v) = (if y v > h then - h else if y v < - h then h else y v)"
  by (simp add: wrap_def Let_def)

lemma wrap_z:
  "z (wrap d w h v) =
     (if z v > depth d then - depth d else if z v < - depth d then depth d else z v)"
  by (simp add: wrap_def Let_def)

text \<open>One coordinate of the wrap, for a bound that is not negative.\<close>

lemma wrap_exclusive:
  fixes a b :: jsnum
  assumes "0 \<le> b"
  shows "(a > b \<longrightarrow> \<not> a < - b) \<and> (a < - b \<longrightarrow> \<not> a > b)"
  using assms by (cases a; cases b) (auto simp: zero_jsnum_def)

lemma wrap_cases:
  fixes a b :: jsnum
  assumes "0 \<le> b"
  shows "a = NaN \<or> a > b \<or> a < - b \<or> (- b \<le> a \<and> a \<le> b)"
  using assms by (cases a; cases b) (auto simp: zero_jsnum_def)

lemma wrap_bounds_in:
  fixes b :: jsnum
  assumes "0 \<le> b"
  shows "- b \<le> - b \<and> - b \<le> b \<and> b \<le> b"
  using assms by (cases b) (auto simp: zero_jsnum_def)

lemma wrap_inside:
  fixes a b :: jsnum
  assumes "- b \<le> a" "a \<le> b"
  shows "\<not> a > b \<and> \<not> a < - b"
  using assms by (cases a; cases b) auto

lemma wrapped_in_bounds:
  fixes a b :: jsnum
  assumes "0 \<le> b"
  shows "(if a > b then - b else if a < - b then b else a) = NaN \<and> a = NaN \<or>
         - b \<le> (if a > b then - b else if a < - b then b else a) \<and>
         (if a > b then - b else if a < - b then b else a) \<le> b"
  using assms by (cases a; cases b) (auto simp: zero_jsnum_def)

section \<open>Facts about the loop and the run\<close>

lemma forEachIndex_ok:
  "i + k \<le> length vs \<Longrightarrow>
   forEachIndex f i k vs = Inr (take i vs @ map f (take k (drop i vs)) @ drop (i + k) vs)"
proof (induction k arbitrary: i vs)
  case 0
  then show ?case by simp
next
  case (Suc k)
  then have lt: "i < length vs" by simp
  have "forEachIndex f i (Suc k) vs = forEachIndex f (Suc i) k (vs[i := f (vs ! i)])"
    using lt by simp
  also have "\<dots> = Inr (take (Suc i) (vs[i := f (vs ! i)]) @
      map f (take k (drop (Suc i) (vs[i := f (vs ! i)]))) @ drop (Suc i + k) (vs[i := f (vs ! i)]))"
    using Suc.prems by (intro Suc.IH) simp
  also have "take (Suc i) (vs[i := f (vs ! i)]) = take i vs @ [f (vs ! i)]"
    using lt by (simp add: take_Suc_conv_app_nth)
  also have "drop (Suc i) (vs[i := f (vs ! i)]) = drop (Suc i) vs"
    by simp
  also have "drop (Suc i + k) (vs[i := f (vs ! i)]) = drop (i + Suc k) vs"
    by simp
  finally show ?case
    using lt by (simp add: Cons_nth_drop_Suc [symmetric])
qed

lemma forEachIndex_all:
  "forEachIndex f 0 (length vs) vs = Inr (map f vs)"
  by (simp add: forEachIndex_ok)

lemma forEachIndex_short:
  "length vs < i + k \<Longrightarrow> 0 < k \<Longrightarrow> forEachIndex f i k vs = Inl TypeError"
proof (induction k arbitrary: i vs)
  case 0
  then show ?case by simp
next
  case (Suc k)
  show ?case
  proof (cases "i < length vs")
    case True
    then have "0 < k" using Suc.prems by simp
    then show ?thesis using True Suc.prems by (simp add: Suc.IH)
  next
    case False
    then show ?thesis by simp
  qed
qed

lemma forEachIndex_Inr_length:
  assumes "forEachIndex f i k vs = Inr vs'" "0 < k"
  shows "i + k \<le> length vs"
proof (rule ccontr)
  assume "\<not> i + k \<le> length vs"
  then have "forEachIndex f i k vs = Inl TypeError"
    using assms(2) by (intro forEachIndex_short) simp_all
  with assms(1) show False by simp
qed

lemma update_Inr:
  assumes "update d fr c = Inr c'"
  shows "len d \<le> length (vertices c)"
    and "frameCount c' = frameCount c + 1"
    and "forcePhase c' = nextPhase c"
    and "tick c' = Some (nextTick fr c)"
    and "posOfForce c' = centre d fr (nextTick fr c)"
    and "vertices c' =
           map (\<lambda>particle. vertexUpdate d (forcePhase c) (ww fr) (wh fr) particle
                  (centre d fr (nextTick fr c)) (deltaTime fr))
             (take (len d) (vertices c)) @ drop (len d) (vertices c)"
proof -
  let ?f = "\<lambda>particle. vertexUpdate d (forcePhase c) (ww fr) (wh fr) particle
              (centre d fr (nextTick fr c)) (deltaTime fr)"
  obtain vs where vs: "forEachIndex ?f 0 (len d) (vertices c) = Inr vs"
    using assms by (auto simp: update_def Let_def split: sum.splits)
  show le: "len d \<le> length (vertices c)"
    using forEachIndex_Inr_length [OF vs] by (cases "len d = 0") auto
  have c': "c' = c\<lparr>tick := Some (nextTick fr c), posOfForce := centre d fr (nextTick fr c),
                    vertices := vs, forcePhase := nextPhase c, frameCount := frameCount c + 1\<rparr>"
    using assms vs by (simp add: update_def Let_def)
  show "frameCount c' = frameCount c + 1" by (simp add: c')
  show "forcePhase c' = nextPhase c" by (simp add: c')
  show "tick c' = Some (nextTick fr c)" by (simp add: c')
  show "posOfForce c' = centre d fr (nextTick fr c)" by (simp add: c')
  have "vs = map ?f (take (len d) (vertices c)) @ drop (len d) (vertices c)"
    using vs le by (simp add: forEachIndex_ok)
  then show "vertices c' = map ?f (take (len d) (vertices c)) @ drop (len d) (vertices c)"
    by (simp add: c')
qed

lemma update_total:
  "len d \<le> length (vertices c) \<Longrightarrow> \<exists>c'. update d fr c = Inr c'"
  by (simp add: update_def Let_def forEachIndex_ok)

lemma update_length:
  "update d fr c = Inr c' \<Longrightarrow> length (vertices c') = length (vertices c)"
  using update_Inr(1,6) [of d fr c c'] by simp

lemma update_nth:
  assumes "update d fr c = Inr c'" "i < len d"
  shows "vertices c' ! i =
    vertexUpdate d (forcePhase c) (ww fr) (wh fr) (vertices c ! i) (posOfForce c') (deltaTime fr)"
  using update_Inr(1,5,6) [OF assms(1)] assms(2) by (simp add: nth_append)

lemma div_480_step:
  "(Suc n) div 480 = n div 480 + (if Suc n mod 480 = 0 then 1 else 0)"
  by (simp add: div_Suc)

lemma nextPhase_closed:
  assumes "frameCount c = Suc n"
    and "forcePhase c = (if even (n div 480) then Attraction else Repulsion)"
  shows "nextPhase c = (if even (Suc n div 480) then Attraction else Repulsion)"
  using assms by (simp add: nextPhase_def div_480_step)

lemma run_total:
  "len d \<le> length (vertices c) \<Longrightarrow> \<exists>c'. run d frs c = Inr c'"
proof (induction frs arbitrary: c)
  case Nil
  show ?case by simp
next
  case (Cons fr frs)
  from update_total [OF Cons.prems] obtain c1 where c1: "update d fr c = Inr c1" by blast
  then have "len d \<le> length (vertices c1)"
    using Cons.prems by (simp add: update_length)
  from Cons.IH [OF this] show ?case by (simp add: c1)
qed

lemma run_length:
  "run d frs c = Inr c' \<Longrightarrow> length (vertices c') = length (vertices c)"
  by (induction frs arbitrary: c) (auto split: sum.splits simp: update_length)

lemma run_frameCount:
  "run d frs c = Inr c' \<Longrightarrow> frameCount c' = frameCount c + length frs"
  by (induction frs arbitrary: c) (auto split: sum.splits simp: update_Inr(2))

lemma run_forcePhase:
  assumes "run d frs c = Inr c'"
    and "frameCount c = Suc n"
    and "forcePhase c = (if even (n div 480) then Attraction else Repulsion)"
  shows "forcePhase c' = (if even ((n + length frs) div 480) then Attraction else Repulsion)"
  using assms
proof (induction frs arbitrary: c n)
  case Nil
  then show ?case by simp
next
  case (Cons fr frs)
  from Cons.prems(1) obtain c1 where c1: "update d fr c = Inr c1" and r: "run d frs c1 = Inr c'"
    by (auto split: sum.splits)
  have fc: "frameCount c1 = Suc (Suc n)"
    using update_Inr(2) [OF c1] Cons.prems(2) by simp
  have ph: "forcePhase c1 = (if even (Suc n div 480) then Attraction else Repulsion)"
    using update_Inr(3) [OF c1] nextPhase_closed [OF Cons.prems(2,3)] by simp
  from Cons.IH [OF r fc ph] show ?case by simp
qed

lemma run_tick:
  "run d frs c = Inr c' \<Longrightarrow> frs \<noteq> [] \<Longrightarrow>
   tick c' = Some ((case tick c of None \<Rightarrow> Fin 0 | Some t \<Rightarrow> t) +
                   (\<Sum>fr\<leftarrow>frs. clockDelta fr * Fin 0.1 * deltaTime fr))"
proof (induction frs arbitrary: c)
  case Nil
  then show ?case by simp
next
  case (Cons fr frs)
  from Cons.prems(1) obtain c1 where c1: "update d fr c = Inr c1" and r: "run d frs c1 = Inr c'"
    by (auto split: sum.splits)
  have t1: "tick c1 = Some (nextTick fr c)" by (rule update_Inr(4) [OF c1])
  show ?case
  proof (cases "frs = []")
    case True
    then show ?thesis using r t1 by (simp add: nextTick_def)
  next
    case False
    from Cons.IH [OF r False] show ?thesis by (simp add: t1 nextTick_def ac_simps)
  qed
qed

lemma session_run:
  "session d iw ih rnd frs =
     run d frs (constructor\<lparr>vertices := map (newVertex d iw ih rnd) [0..<len d]\<rparr>)"
  by (simp add: session_def boot_def)

section \<open>The force phase\<close>

text \<open>
  C4. A canvas starts in the attraction phase. After exactly 480 calls of the update the
  phase is repulsion, after exactly 960 calls it is attraction again; in general the
  phase after \<open>n\<close> calls is attraction exactly when \<open>n div 480\<close> is even, whatever the
  frames, the window and the random numbers are. The run never throws.
\<close>

theorem phase_toggling:
  "\<exists>c. session d iw ih rnd frs = Inr c \<and>
       forcePhase c = (if even (length frs div 480) then Attraction else Repulsion) \<and>
       (length frs < 480 \<longrightarrow> forcePhase c = Attraction) \<and>
       (length frs = 480 \<longrightarrow> forcePhase c = Repulsion) \<and>
       (length frs = 960 \<longrightarrow> forcePhase c = Attraction)"
proof -
  let ?c0 = "constructor\<lparr>vertices := map (newVertex d iw ih rnd) [0..<len d]\<rparr>"
  have "len d \<le> length (vertices ?c0)" by simp
  from run_total [OF this] obtain c where c: "run d frs ?c0 = Inr c" by blast
  have "frameCount ?c0 = Suc 0" by (simp add: constructor_def)
  moreover have "forcePhase ?c0 = (if even (0 div 480 :: nat) then Attraction else Repulsion)"
    by (simp add: constructor_def)
  ultimately have ph: "forcePhase c = (if even ((0 + length frs) div 480) then Attraction else Repulsion)"
    by (rule run_forcePhase [OF c])
  have "session d iw ih rnd frs = Inr c" by (simp add: session_run c)
  moreover have "length frs < 480 \<longrightarrow> forcePhase c = Attraction" using ph by simp
  moreover have "length frs = 480 \<longrightarrow> forcePhase c = Repulsion" using ph by simp
  moreover have "length frs = 960 \<longrightarrow> forcePhase c = Attraction" using ph by simp
  ultimately show ?thesis using ph by auto
qed

theorem phase_toggling_witness:
  "(\<exists>c. session defaults (Fin 800) (Fin 600) (\<lambda>k. Fin (1 / 2))
          (replicate 480 \<lparr>clockDelta = Fin (1 / 60), deltaTime = Fin 1, ww = Fin 800, wh = Fin 600\<rparr>)
          = Inr c \<and> forcePhase c = Repulsion) \<and>
   (\<exists>c. session defaults (Fin 800) (Fin 600) (\<lambda>k. Fin (1 / 2))
          (replicate 960 \<lparr>clockDelta = Fin (1 / 60), deltaTime = Fin 1, ww = Fin 800, wh = Fin 600\<rparr>)
          = Inr c \<and> forcePhase c = Attraction) \<and>
   (\<exists>c. session defaults (Fin 800) (Fin 600) (\<lambda>k. Fin (1 / 2))
          (replicate 479 \<lparr>clockDelta = Fin (1 / 60), deltaTime = Fin 1, ww = Fin 800, wh = Fin 600\<rparr>)
          = Inr c \<and> forcePhase c = Attraction)"
  using phase_toggling [of defaults "Fin 800" "Fin 600" "\<lambda>k. Fin (1 / 2)"
      "replicate 480 \<lparr>clockDelta = Fin (1 / 60), deltaTime = Fin 1, ww = Fin 800, wh = Fin 600\<rparr>"]
    phase_toggling [of defaults "Fin 800" "Fin 600" "\<lambda>k. Fin (1 / 2)"
      "replicate 960 \<lparr>clockDelta = Fin (1 / 60), deltaTime = Fin 1, ww = Fin 800, wh = Fin 600\<rparr>"]
    phase_toggling [of defaults "Fin 800" "Fin 600" "\<lambda>k. Fin (1 / 2)"
      "replicate 479 \<lparr>clockDelta = Fin (1 / 60), deltaTime = Fin 1, ww = Fin 800, wh = Fin 600\<rparr>"]
  by simp

section \<open>The clock of the force\<close>

text \<open>
  C9, as amended. A call of the update on a canvas that holds its particles returns and
  advances \<^verbatim>\<open>_tick\<close> by \<open>clockDelta * 0.1 * deltaTime\<close>, where \<open>clockDelta\<close> is what
  \<^verbatim>\<open>this._clock.getDelta()\<close> returned, the seconds of wall-clock time since the call before;
  \<^verbatim>\<open>null\<close> counts as 0. After the frames \<open>frs\<close> of a session the value is the sum of
  \<open>clockDelta * 0.1 * deltaTime\<close> over the frames, and \<^verbatim>\<open>null\<close> when there was no frame.
\<close>

theorem tick_advance:
  assumes "len d \<le> length (vertices c)"
  shows "(\<exists>c'. update d fr c = Inr c' \<and>
           tick c' = Some ((case tick c of None \<Rightarrow> Fin 0 | Some t \<Rightarrow> t) +
                           clockDelta fr * Fin 0.1 * deltaTime fr)) \<and>
         (\<exists>cn. session d iw ih rnd frs = Inr cn \<and>
           tick cn = (if frs = [] then None
                      else Some (\<Sum>fr\<leftarrow>frs. clockDelta fr * Fin 0.1 * deltaTime fr)))"
proof
  from update_total [OF assms] obtain c' where c': "update d fr c = Inr c'" by blast
  then have "tick c' = Some ((case tick c of None \<Rightarrow> Fin 0 | Some t \<Rightarrow> t) +
                           clockDelta fr * Fin 0.1 * deltaTime fr)"
    using update_Inr(4) [OF c'] by (simp add: nextTick_def)
  with c' show "\<exists>c'. update d fr c = Inr c' \<and>
           tick c' = Some ((case tick c of None \<Rightarrow> Fin 0 | Some t \<Rightarrow> t) +
                           clockDelta fr * Fin 0.1 * deltaTime fr)" by blast
next
  let ?c0 = "constructor\<lparr>vertices := map (newVertex d iw ih rnd) [0..<len d]\<rparr>"
  have "len d \<le> length (vertices ?c0)" by simp
  from run_total [OF this] obtain cn where cn: "run d frs ?c0 = Inr cn" by blast
  have "tick cn = (if frs = [] then None
                else Some (\<Sum>fr\<leftarrow>frs. clockDelta fr * Fin 0.1 * deltaTime fr))"
  proof (cases "frs = []")
    case True
    then show ?thesis using cn by (auto simp: constructor_def)
  next
    case False
    from run_tick [OF cn False] show ?thesis
      using False by (simp add: constructor_def zero_jsnum_def [symmetric])
  qed
  then show "\<exists>cn. session d iw ih rnd frs = Inr cn \<and>
      tick cn = (if frs = [] then None
                else Some (\<Sum>fr\<leftarrow>frs. clockDelta fr * Fin 0.1 * deltaTime fr))"
    by (simp add: session_run cn)
qed

theorem tick_advance_witness:
  "(\<exists>c'. update defaults \<lparr>clockDelta = Fin (1 / 50), deltaTime = Fin 2, ww = Fin 800, wh = Fin 600\<rparr>
           (constructor\<lparr>vertices :=
                          map (newVertex defaults (Fin 800) (Fin 600) (\<lambda>k. Fin (1 / 2))) [0..<10000],
                        tick := Some (Fin 3)\<rparr>) = Inr c' \<and>
         tick c' = Some (Fin (3 + 1 / 250))) \<and>
   (\<exists>cn. session defaults (Fin 800) (Fin 600) (\<lambda>k. Fin (1 / 2))
           [\<lparr>clockDelta = Fin 0, deltaTime = Fin 1, ww = Fin 800, wh = Fin 600\<rparr>,
            \<lparr>clockDelta = Fin (1 / 30), deltaTime = Fin 2, ww = Fin 800, wh = Fin 600\<rparr>] = Inr cn \<and>
         tick cn = Some (Fin (1 / 150)))"
  using tick_advance [of defaults
      "constructor\<lparr>vertices :=
                     map (newVertex defaults (Fin 800) (Fin 600) (\<lambda>k. Fin (1 / 2))) [0..<10000],
                   tick := Some (Fin 3)\<rparr>"
      "\<lparr>clockDelta = Fin (1 / 50), deltaTime = Fin 2, ww = Fin 800, wh = Fin 600\<rparr>"
      "Fin 800" "Fin 600" "\<lambda>k. Fin (1 / 2)"
      "[\<lparr>clockDelta = Fin 0, deltaTime = Fin 1, ww = Fin 800, wh = Fin 600\<rparr>,
        \<lparr>clockDelta = Fin (1 / 30), deltaTime = Fin 2, ww = Fin 800, wh = Fin 600\<rparr>]"]
  by (simp add: defaults_def zero_jsnum_def)

text \<open>
  C9 as the specification states it fails: after two updates of a booted canvas with
  \<open>deltaTime = 1\<close>, the first with the clock just started and the second \<open>1/60\<close> of a
  second later, \<^verbatim>\<open>_tick\<close> is \<open>1/600\<close>, not \<open>(1 + 1) * 0.1\<close>.
\<close>

theorem tick_counterexample:
  "\<exists>c. session defaults (Fin 800) (Fin 600) (\<lambda>k. Fin (1 / 2))
          [\<lparr>clockDelta = Fin 0, deltaTime = Fin 1, ww = Fin 800, wh = Fin 600\<rparr>,
           \<lparr>clockDelta = Fin (1 / 60), deltaTime = Fin 1, ww = Fin 800, wh = Fin 600\<rparr>] = Inr c \<and>
        tick c = Some (Fin (1 / 600)) \<and> tick c \<noteq> Some (Fin 0 + (Fin 1 + Fin 1) * Fin 0.1)"
proof -
  let ?frs = "[\<lparr>clockDelta = Fin 0, deltaTime = Fin 1, ww = Fin 800, wh = Fin 600\<rparr>,
           \<lparr>clockDelta = Fin (1 / 60), deltaTime = Fin 1, ww = Fin 800, wh = Fin 600\<rparr>]"
  let ?c0 = "constructor\<lparr>vertices :=
      map (newVertex defaults (Fin 800) (Fin 600) (\<lambda>k. Fin (1 / 2))) [0..<len defaults]\<rparr>"
  have "len defaults \<le> length (vertices ?c0)" by simp
  from run_total [OF this] obtain c where c: "run defaults ?frs ?c0 = Inr c" by blast
  have "tick c = Some (Fin (1 / 600))"
    using run_tick [OF c] by (simp add: constructor_def zero_jsnum_def)
  then show ?thesis using c by (simp add: session_run)
qed

section \<open>Booting\<close>

text \<open>
  C6, as amended. \<^verbatim>\<open>boot\<close> tests nothing and never fails: for every window size, also
  one that is zero or negative, and every \<^verbatim>\<open>defaults\<close> it returns a canvas with
  \<^verbatim>\<open>defaults.len\<close> particles (10000), each with zero velocity and force, friction 0.01
  and mass 1; the clock of the force is still \<^verbatim>\<open>null\<close>, the phase is attraction and the
  frame counter is 1.
\<close>

theorem boot_never_fails:
  "\<exists>c. boot d iw ih rnd constructor = Inr c \<and>
       length (vertices c) = len d \<and>
       (\<forall>v \<in> set (vertices c).
          velocity v = Vector3 (Fin 0) (Fin 0) (Fin 0) \<and> force v = Vector3 (Fin 0) (Fin 0) (Fin 0) \<and>
          friction v = Fin 0.01 \<and> mass v = Fin 1) \<and>
       tick c = None \<and> forcePhase c = Attraction \<and> frameCount c = 1"
  by (auto simp: boot_def newVertex_def constructor_def)

theorem boot_never_fails_witness:
  "\<exists>c. boot defaults (Fin (- 800)) (Fin 0) (\<lambda>k. Fin (1 / 2)) constructor = Inr c \<and>
       length (vertices c) = 10000 \<and>
       velocity (vertices c ! 0) = Vector3 (Fin 0) (Fin 0) (Fin 0) \<and>
       force (vertices c ! 0) = Vector3 (Fin 0) (Fin 0) (Fin 0) \<and>
       friction (vertices c ! 0) = Fin 0.01 \<and> mass (vertices c ! 0) = Fin 1"
proof -
  from boot_never_fails [of defaults "Fin (- 800)" "Fin 0" "\<lambda>k. Fin (1 / 2)"]
  obtain c where c: "boot defaults (Fin (- 800)) (Fin 0) (\<lambda>k. Fin (1 / 2)) constructor = Inr c"
    and l: "length (vertices c) = len defaults"
    and a: "\<forall>v \<in> set (vertices c).
          velocity v = Vector3 (Fin 0) (Fin 0) (Fin 0) \<and> force v = Vector3 (Fin 0) (Fin 0) (Fin 0) \<and>
          friction v = Fin 0.01 \<and> mass v = Fin 1"
    by blast
  have l': "length (vertices c) = 10000" using l by (simp add: defaults_def)
  then have "vertices c ! 0 \<in> set (vertices c)" by (intro nth_mem) simp
  with a c l' show ?thesis by blast
qed

text \<open>
  C6 as the specification states it fails: \<^verbatim>\<open>boot\<close> in a window of width and height 0,
  or of negative size, or with no particle to make, does not fail with
  \<open>InvalidConfiguration\<close>; in the window of size 0 it makes its 10000 particles.
\<close>

theorem boot_validation_counterexample:
  "boot defaults (Fin 0) (Fin 0) (\<lambda>k. Fin (1 / 2)) constructor \<noteq> Inl InvalidConfiguration \<and>
   boot defaults (Fin (- 800)) (Fin (- 600)) (\<lambda>k. Fin (1 / 2)) constructor
     \<noteq> Inl InvalidConfiguration \<and>
   boot (defaults\<lparr>len := 0\<rparr>) (Fin 800) (Fin 600) (\<lambda>k. Fin (1 / 2)) constructor
     \<noteq> Inl InvalidConfiguration \<and>
   (\<exists>c. boot defaults (Fin 0) (Fin 0) (\<lambda>k. Fin (1 / 2)) constructor = Inr c \<and>
        length (vertices c) = 10000)"
  by (simp add: boot_def defaults_def)

section \<open>Facts about the parts of the particle update\<close>

lemma attraction_frame:
  "x (attraction v fx fy fz r s) = x v" "y (attraction v fx fy fz r s) = y v"
  "z (attraction v fx fy fz r s) = z v" "velocity (attraction v fx fy fz r s) = velocity v"
  "friction (attraction v fx fy fz r s) = friction v" "mass (attraction v fx fy fz r s) = mass v"
  by (simp_all add: attraction_def Let_def)

lemma repulsion_frame:
  "x (repulsion v fx fy fz r s) = x v" "y (repulsion v fx fy fz r s) = y v"
  "z (repulsion v fx fy fz r s) = z v" "velocity (repulsion v fx fy fz r s) = velocity v"
  "friction (repulsion v fx fy fz r s) = friction v" "mass (repulsion v fx fy fz r s) = mass v"
  by (simp_all add: repulsion_def Let_def)

lemma recombine_frame:
  "x (recombine v dt) = x v" "y (recombine v dt) = y v" "z (recombine v dt) = z v"
  "velocity (recombine v dt) = velocity v" "friction (recombine v dt) = friction v"
  "mass (recombine v dt) = mass v"
  by (simp_all add: recombine_def)

lemma applyForces_frame:
  "x (applyForces ph v pof) = x v" "y (applyForces ph v pof) = y v"
  "z (applyForces ph v pof) = z v" "velocity (applyForces ph v pof) = velocity v"
  "friction (applyForces ph v pof) = friction v" "mass (applyForces ph v pof) = mass v"
  by (cases ph; simp add: applyForces_def attraction_frame repulsion_frame)+

lemma integrate_fields:
  "velocity (integrate v dt) =
     \<lparr>x = x (velocity v) + x (force v) * Fin 0.41 * dt,
      y = y (velocity v) + y (force v) * Fin 0.41 * dt,
      z = z (velocity v) + z (force v) * Fin 0.41 * dt\<rparr>"
  "force (integrate v dt) = force v"
  "x (integrate v dt) = x v + (x (velocity v) + x (force v) * Fin 0.41 * dt) * dt"
  "y (integrate v dt) = y v + (y (velocity v) + y (force v) * Fin 0.41 * dt) * dt"
  "z (integrate v dt) = z v + (z (velocity v) + z (force v) * Fin 0.41 * dt) * dt"
  by (simp_all add: integrate_def Let_def)

section \<open>The integration\<close>

text \<open>
  C3. The update of a particle is the recombination of the force, the contributions of
  the phase, the integration and the wrap, in this order. The recombined force is
  \<open>(force - velocity * friction) * 0.41 * deltaTime\<close> in each component; the force the
  update returns is the recombined force with the contributions of the phase; the new
  velocity is the old one plus that force times \<open>0.41 * deltaTime\<close>; the position before
  the wrap is the old one plus the new velocity times \<open>deltaTime\<close>. An update of the
  canvas that returns has done this to every particle, under the phase it started with.
\<close>

theorem integration_equations:
  "vertexUpdate d phase w h v pof dt =
     wrap d w h (integrate (applyForces phase (recombine v dt) pof) dt) \<and>
   force (recombine v dt) =
     \<lparr>x = (x (force v) - x (velocity v) * friction v) * Fin 0.41 * dt,
      y = (y (force v) - y (velocity v) * friction v) * Fin 0.41 * dt,
      z = (z (force v) - z (velocity v) * friction v) * Fin 0.41 * dt\<rparr> \<and>
   force (vertexUpdate d phase w h v pof dt) = force (applyForces phase (recombine v dt) pof) \<and>
   velocity (vertexUpdate d phase w h v pof dt) =
     \<lparr>x = x (velocity v) + x (force (vertexUpdate d phase w h v pof dt)) * Fin 0.41 * dt,
      y = y (velocity v) + y (force (vertexUpdate d phase w h v pof dt)) * Fin 0.41 * dt,
      z = z (velocity v) + z (force (vertexUpdate d phase w h v pof dt)) * Fin 0.41 * dt\<rparr> \<and>
   x (integrate (applyForces phase (recombine v dt) pof) dt) =
     x v + x (velocity (vertexUpdate d phase w h v pof dt)) * dt \<and>
   y (integrate (applyForces phase (recombine v dt) pof) dt) =
     y v + y (velocity (vertexUpdate d phase w h v pof dt)) * dt \<and>
   z (integrate (applyForces phase (recombine v dt) pof) dt) =
     z v + z (velocity (vertexUpdate d phase w h v pof dt)) * dt \<and>
   (update d fr c = Inr c' \<longrightarrow>
      (\<forall>i<len d. vertices c' ! i =
         vertexUpdate d (forcePhase c) (ww fr) (wh fr) (vertices c ! i) (posOfForce c')
           (deltaTime fr)))"
  by (simp add: vertexUpdate_def wrap_velocity wrap_force integrate_fields applyForces_frame
      recombine_frame update_nth [unfolded vertexUpdate_def]) (simp add: recombine_def)

theorem integration_equations_witness:
  "\<exists>c0 c1. boot defaults (Fin 800) (Fin 600) (\<lambda>k. Fin (1 / 2)) constructor = Inr c0 \<and>
     update defaults \<lparr>clockDelta = Fin 0, deltaTime = Fin 1, ww = Fin 800, wh = Fin 600\<rparr> c0
       = Inr c1 \<and>
     vertices c1 ! 0 =
       vertexUpdate defaults Attraction (Fin 800) (Fin 600) (vertices c0 ! 0) (posOfForce c1)
         (Fin 1) \<and>
     velocity (vertices c1 ! 0) =
       \<lparr>x = Fin 0 + x (force (vertices c1 ! 0)) * Fin 0.41 * Fin 1,
        y = Fin 0 + y (force (vertices c1 ! 0)) * Fin 0.41 * Fin 1,
        z = Fin 0 + z (force (vertices c1 ! 0)) * Fin 0.41 * Fin 1\<rparr>"
proof -
  let ?c0 = "constructor\<lparr>vertices :=
      map (newVertex defaults (Fin 800) (Fin 600) (\<lambda>k. Fin (1 / 2))) [0..<len defaults]\<rparr>"
  let ?fr = "\<lparr>clockDelta = Fin 0, deltaTime = Fin 1, ww = Fin 800, wh = Fin 600\<rparr>"
  have b: "boot defaults (Fin 800) (Fin 600) (\<lambda>k. Fin (1 / 2)) constructor = Inr ?c0"
    by (simp add: boot_def)
  have "len defaults \<le> length (vertices ?c0)" by simp
  from update_total [OF this] obtain c1 where c1: "update defaults ?fr ?c0 = Inr c1" by blast
  have l: "0 < len defaults" by (simp add: defaults_def)
  have v0: "velocity (vertices ?c0 ! 0) = \<lparr>x = Fin 0, y = Fin 0, z = Fin 0\<rparr>"
    using l by (simp add: newVertex_def Vector3_def)
  have ph: "forcePhase ?c0 = Attraction" by (simp add: constructor_def)
  note e = integration_equations [of defaults Attraction "Fin 800" "Fin 600" "vertices ?c0 ! 0"
      "posOfForce c1" "Fin 1" ?fr ?c0 c1]
  from e c1 l have n: "vertices c1 ! 0 =
       vertexUpdate defaults Attraction (Fin 800) (Fin 600) (vertices ?c0 ! 0) (posOfForce c1) (Fin 1)"
    by (simp add: ph)
  from e have "velocity (vertexUpdate defaults Attraction (Fin 800) (Fin 600) (vertices ?c0 ! 0)
        (posOfForce c1) (Fin 1)) =
     \<lparr>x = x (velocity (vertices ?c0 ! 0)) +
            x (force (vertexUpdate defaults Attraction (Fin 800) (Fin 600) (vertices ?c0 ! 0)
              (posOfForce c1) (Fin 1))) * Fin 0.41 * Fin 1,
      y = y (velocity (vertices ?c0 ! 0)) +
            y (force (vertexUpdate defaults Attraction (Fin 800) (Fin 600) (vertices ?c0 ! 0)
              (posOfForce c1) (Fin 1))) * Fin 0.41 * Fin 1,
      z = z (velocity (vertices ?c0 ! 0)) +
            z (force (vertexUpdate defaults Attraction (Fin 800) (Fin 600) (vertices ?c0 ! 0)
              (posOfForce c1) (Fin 1))) * Fin 0.41 * Fin 1\<rparr>"
    by blast
  then have "velocity (vertices c1 ! 0) =
       \<lparr>x = Fin 0 + x (force (vertices c1 ! 0)) * Fin 0.41 * Fin 1,
        y = Fin 0 + y (force (vertices c1 ! 0)) * Fin 0.41 * Fin 1,
        z = Fin 0 + z (force (vertices c1 ! 0)) * Fin 0.41 * Fin 1\<rparr>"
    unfolding n [symmetric] v0 by simp
  with b c1 n show ?thesis by blast
qed

section \<open>The wrap\<close>

text \<open>
  C2, as amended. For bounds \<open>w\<close>, \<open>h\<close> (the window's full width \<^verbatim>\<open>this.ww\<close> and height
  \<^verbatim>\<open>this.wh\<close>) and depth that are not negative: a coordinate beyond its positive bound
  after the integration is set to the negative bound, one below the negative bound is set
  to the positive bound, one within the bounds is kept, each axis by itself; velocity,
  force, friction and mass are not touched, so the velocity a particle update returns is
  the integrated one. With \<open>w = 500\<close>, a particle at \<open>x = 501\<close> goes to \<open>x = - 500\<close>.
\<close>

theorem wrap_teleports:
  assumes "0 \<le> w" "0 \<le> h" "0 \<le> depth d"
  shows "(x v > w \<longrightarrow> x (wrap d w h v) = - w) \<and>
         (x v < - w \<longrightarrow> x (wrap d w h v) = w) \<and>
         (- w \<le> x v \<and> x v \<le> w \<longrightarrow> x (wrap d w h v) = x v) \<and>
         (y v > h \<longrightarrow> y (wrap d w h v) = - h) \<and>
         (y v < - h \<longrightarrow> y (wrap d w h v) = h) \<and>
         (- h \<le> y v \<and> y v \<le> h \<longrightarrow> y (wrap d w h v) = y v) \<and>
         (z v > depth d \<longrightarrow> z (wrap d w h v) = - depth d) \<and>
         (z v < - depth d \<longrightarrow> z (wrap d w h v) = depth d) \<and>
         (- depth d \<le> z v \<and> z v \<le> depth d \<longrightarrow> z (wrap d w h v) = z v) \<and>
         velocity (wrap d w h v) = velocity v \<and> force (wrap d w h v) = force v \<and>
         friction (wrap d w h v) = friction v \<and> mass (wrap d w h v) = mass v \<and>
         velocity (vertexUpdate d phase w h u pof dt) =
           velocity (integrate (applyForces phase (recombine u dt) pof) dt) \<and>
         (w = Fin 500 \<and> x v = w + Fin 1 \<longrightarrow> x (wrap d w h v) = Fin (- 500))"
  using wrap_exclusive [OF assms(1), of "x v"] wrap_inside [of w "x v"]
    wrap_exclusive [OF assms(2), of "y v"] wrap_inside [of h "y v"]
    wrap_exclusive [OF assms(3), of "z v"] wrap_inside [of "depth d" "z v"]
  by (auto simp add: wrap_x wrap_y wrap_z wrap_velocity wrap_force wrap_friction wrap_mass
      vertexUpdate_def)

theorem wrap_teleports_witness:
  "x (wrap defaults (Fin 500) (Fin 400)
        \<lparr>x = Fin 501, y = Fin (- 401), z = Fin 0,
         velocity = Vector3 (Fin 1) (Fin (- 1)) (Fin 0), force = Vector3 (Fin 0) (Fin 0) (Fin 0),
         friction = Fin 0.01, mass = Fin 1\<rparr>) = Fin (- 500) \<and>
   y (wrap defaults (Fin 500) (Fin 400)
        \<lparr>x = Fin 501, y = Fin (- 401), z = Fin 0,
         velocity = Vector3 (Fin 1) (Fin (- 1)) (Fin 0), force = Vector3 (Fin 0) (Fin 0) (Fin 0),
         friction = Fin 0.01, mass = Fin 1\<rparr>) = Fin 400 \<and>
   velocity (wrap defaults (Fin 500) (Fin 400)
        \<lparr>x = Fin 501, y = Fin (- 401), z = Fin 0,
         velocity = Vector3 (Fin 1) (Fin (- 1)) (Fin 0), force = Vector3 (Fin 0) (Fin 0) (Fin 0),
         friction = Fin 0.01, mass = Fin 1\<rparr>) = Vector3 (Fin 1) (Fin (- 1)) (Fin 0)"
  using wrap_teleports [of "Fin 500" "Fin 400" defaults
        "\<lparr>x = Fin 501, y = Fin (- 401), z = Fin 0,
         velocity = Vector3 (Fin 1) (Fin (- 1)) (Fin 0), force = Vector3 (Fin 0) (Fin 0) (Fin 0),
         friction = Fin 0.01, mass = Fin 1\<rparr>"]
  by (simp add: defaults_def zero_jsnum_def)

text \<open>
  C2 as the specification states it, with 500 the half width: the window is then 1000
  wide, the bound tested is 1000, and a particle at \<open>x = 501\<close> is not moved.
\<close>

theorem wrap_scenario_counterexample:
  "x (wrap defaults (Fin 1000) (Fin 800)
        \<lparr>x = Fin (1000 / 2 + 1), y = Fin 0, z = Fin 0,
         velocity = Vector3 (Fin 1) (Fin 0) (Fin 0), force = Vector3 (Fin 0) (Fin 0) (Fin 0),
         friction = Fin 0.01, mass = Fin 1\<rparr>) = Fin 501 \<and>
   x (wrap defaults (Fin 1000) (Fin 800)
        \<lparr>x = Fin (1000 / 2 + 1), y = Fin 0, z = Fin 0,
         velocity = Vector3 (Fin 1) (Fin 0) (Fin 0), force = Vector3 (Fin 0) (Fin 0) (Fin 0),
         friction = Fin 0.01, mass = Fin 1\<rparr>) \<noteq> Fin (- 500)"
  by (simp add: wrap_x)

section \<open>Facts about the force helpers\<close>

lemma minus_twice: "a - b - b = a - Fin 2 * (b::jsnum)"
  by (cases a; cases b) (simp_all add: minus_jsnum_def)

lemma plus_twice: "a + b + b = a + Fin 2 * (b::jsnum)"
  by (cases a; cases b) simp_all

lemma attraction_near:
  assumes "bAmCloseEnough radius (lengthV (Vector3 (x v - fx) (y v - fy) (z v - fz)))"
  shows "force (attraction v fx fy fz radius s) =
     \<lparr>x = x (force v) - x (normalizeV (Vector3 (x v - fx) (y v - fy) (z v - fz))) * s *
            (Fin 1 - lengthV (Vector3 (x v - fx) (y v - fy) (z v - fz)) / radius),
      y = y (force v) - y (normalizeV (Vector3 (x v - fx) (y v - fy) (z v - fz))) * s *
            (Fin 1 - lengthV (Vector3 (x v - fx) (y v - fy) (z v - fz)) / radius),
      z = y (force v) - y (normalizeV (Vector3 (x v - fx) (y v - fy) (z v - fz))) * s *
            (Fin 1 - lengthV (Vector3 (x v - fx) (y v - fy) (z v - fz)) / radius)
          - y (normalizeV (Vector3 (x v - fx) (y v - fy) (z v - fz))) * s *
            (Fin 1 - lengthV (Vector3 (x v - fx) (y v - fy) (z v - fz)) / radius)\<rparr>"
  using assms by (simp add: attraction_def Let_def Vector3_def)

lemma repulsion_near:
  assumes "bAmCloseEnough radius (lengthV (Vector3 (x v - fx) (y v - fy) (z v - fz)))"
  shows "force (repulsion v fx fy fz radius s) =
     \<lparr>x = x (force v) + x (normalizeV (Vector3 (x v - fx) (y v - fy) (z v - fz))) * s *
            (Fin 1 - lengthV (Vector3 (x v - fx) (y v - fy) (z v - fz)) / radius),
      y = y (force v) + y (normalizeV (Vector3 (x v - fx) (y v - fy) (z v - fz))) * s *
            (Fin 1 - lengthV (Vector3 (x v - fx) (y v - fy) (z v - fz)) / radius),
      z = y (force v) + y (normalizeV (Vector3 (x v - fx) (y v - fy) (z v - fz))) * s *
            (Fin 1 - lengthV (Vector3 (x v - fx) (y v - fy) (z v - fz)) / radius)
          + y (normalizeV (Vector3 (x v - fx) (y v - fy) (z v - fz))) * s *
            (Fin 1 - lengthV (Vector3 (x v - fx) (y v - fy) (z v - fz)) / radius)\<rparr>"
  using assms by (simp add: repulsion_def Let_def Vector3_def)

section \<open>The force along z\<close>

text \<open>
  C5, as amended. Whenever the in-radius branch of a force helper runs, the helper
  assigns \<^verbatim>\<open>force.z\<close> from the \<^verbatim>\<open>force.y\<close> it has just written and the \<open>y\<close> component
  of the normalized difference: \<^verbatim>\<open>attraction\<close> writes
  \<open>force.z = force.y - diff.y * scale * pct\<close> and \<^verbatim>\<open>repulsion\<close> writes
  \<open>force.z = force.y + diff.y * scale * pct\<close>. So the new \<open>force.z\<close> is the old
  \<open>force.y\<close> minus, respectively plus, twice \<open>diff.y * scale * pct\<close>; neither the old
  \<open>force.z\<close> nor \<open>diff.z\<close> stands in it.
\<close>

theorem z_force_from_y:
  assumes "bAmCloseEnough radius (lengthV (Vector3 (x v - fx) (y v - fy) (z v - fz)))"
  shows "z (force (attraction v fx fy fz radius s)) =
           y (force (attraction v fx fy fz radius s))
           - y (normalizeV (Vector3 (x v - fx) (y v - fy) (z v - fz))) * s *
             (Fin 1 - lengthV (Vector3 (x v - fx) (y v - fy) (z v - fz)) / radius) \<and>
         z (force (repulsion v fx fy fz radius s)) =
           y (force (repulsion v fx fy fz radius s))
           + y (normalizeV (Vector3 (x v - fx) (y v - fy) (z v - fz))) * s *
             (Fin 1 - lengthV (Vector3 (x v - fx) (y v - fy) (z v - fz)) / radius) \<and>
         z (force (attraction v fx fy fz radius s)) =
           y (force v)
           - Fin 2 * (y (normalizeV (Vector3 (x v - fx) (y v - fy) (z v - fz))) * s *
             (Fin 1 - lengthV (Vector3 (x v - fx) (y v - fy) (z v - fz)) / radius)) \<and>
         z (force (repulsion v fx fy fz radius s)) =
           y (force v)
           + Fin 2 * (y (normalizeV (Vector3 (x v - fx) (y v - fy) (z v - fz))) * s *
             (Fin 1 - lengthV (Vector3 (x v - fx) (y v - fy) (z v - fz)) / radius))"
  by (simp add: attraction_near [OF assms] repulsion_near [OF assms] minus_twice plus_twice)

lemma lengthV_Fin:
  "lengthV (Vector3 (Fin a) (Fin b) (Fin c)) = Fin (sqrt (a * a + b * b + c * c))"
  by (simp add: lengthV_def Vector3_def not_less add_nonneg_nonneg)

lemma lengthV_axis:
  "lengthV (Vector3 (Fin a) (Fin 0) (Fin 0)) = Fin \<bar>a\<bar>"
  "lengthV (Vector3 (Fin 0) (Fin a) (Fin 0)) = Fin \<bar>a\<bar>"
  by (simp_all add: lengthV_Fin)

lemma normalizeV_Fin:
  "normalizeV (Vector3 (Fin a) (Fin b) (Fin c)) =
     Vector3 (Fin (a * (1 / (if sqrt (a * a + b * b + c * c) = 0 then 1
                             else sqrt (a * a + b * b + c * c)))))
             (Fin (b * (1 / (if sqrt (a * a + b * b + c * c) = 0 then 1
                             else sqrt (a * a + b * b + c * c)))))
             (Fin (c * (1 / (if sqrt (a * a + b * b + c * c) = 0 then 1
                             else sqrt (a * a + b * b + c * c)))))"
  by (simp add: normalizeV_def lengthV_Fin orElse_def divideScalar_def multiplyScalar_def)
    (simp add: Vector3_def)

lemma normalizeV_axis:
  "a \<noteq> 0 \<Longrightarrow> normalizeV (Vector3 (Fin a) (Fin 0) (Fin 0)) = Vector3 (Fin (a / \<bar>a\<bar>)) (Fin 0) (Fin 0)"
  "a \<noteq> 0 \<Longrightarrow> normalizeV (Vector3 (Fin 0) (Fin a) (Fin 0)) = Vector3 (Fin 0) (Fin (a / \<bar>a\<bar>)) (Fin 0)"
  "normalizeV (Vector3 (Fin 0) (Fin 0) (Fin 0)) = Vector3 (Fin 0) (Fin 0) (Fin 0)"
  by (simp_all add: normalizeV_Fin)

lemma bAmCloseEnough_Fin:
  "bAmCloseEnough (Fin r) (Fin l) = (\<not> (0 < r \<and> r < l))"
  by (simp add: bAmCloseEnough_def)

theorem z_force_from_y_witness:
  "bAmCloseEnough (Fin 200) (lengthV (Vector3 (Fin 0 - Fin 0) (Fin 100 - Fin 0) (Fin 0 - Fin 0))) \<and>
   force (attraction
           \<lparr>x = Fin 0, y = Fin 100, z = Fin 0, velocity = Vector3 (Fin 0) (Fin 0) (Fin 0),
            force = Vector3 (Fin 0) (Fin 0) (Fin 0), friction = Fin 0.01, mass = Fin 1\<rparr>
           (Fin 0) (Fin 0) (Fin 0) (Fin 200) (Fin 0.02))
     = Vector3 (Fin 0) (Fin (- (1 / 100))) (Fin (- (1 / 50))) \<and>
   force (repulsion
           \<lparr>x = Fin 0, y = Fin 100, z = Fin 0, velocity = Vector3 (Fin 0) (Fin 0) (Fin 0),
            force = Vector3 (Fin 0) (Fin 0) (Fin 0), friction = Fin 0.01, mass = Fin 1\<rparr>
           (Fin 0) (Fin 0) (Fin 0) (Fin 200) (Fin 0.02))
     = Vector3 (Fin 0) (Fin (1 / 100)) (Fin (1 / 50))"
proof -
  let ?v = "\<lparr>x = Fin 0, y = Fin 100, z = Fin 0, velocity = Vector3 (Fin 0) (Fin 0) (Fin 0),
            force = Vector3 (Fin 0) (Fin 0) (Fin 0), friction = Fin 0.01, mass = Fin 1\<rparr>"
  have l: "lengthV (Vector3 (Fin 0) (Fin 100) (Fin 0)) = Fin 100"
    using lengthV_axis(2) [of 100] by simp
  have n: "normalizeV (Vector3 (Fin 0) (Fin 100) (Fin 0)) = Vector3 (Fin 0) (Fin 1) (Fin 0)"
    using normalizeV_axis(2) [of 100] by simp
  have c: "bAmCloseEnough (Fin 200)
             (lengthV (Vector3 (x ?v - Fin 0) (y ?v - Fin 0) (z ?v - Fin 0)))"
    by (simp add: l bAmCloseEnough_Fin)
  have a: "force (attraction ?v (Fin 0) (Fin 0) (Fin 0) (Fin 200) (Fin 0.02))
      = Vector3 (Fin 0) (Fin (- (1 / 100))) (Fin (- (1 / 50)))"
    by (subst attraction_near) (simp_all add: l n bAmCloseEnough_Fin, simp add: Vector3_def)
  have r: "force (repulsion ?v (Fin 0) (Fin 0) (Fin 0) (Fin 200) (Fin 0.02))
      = Vector3 (Fin 0) (Fin (1 / 100)) (Fin (1 / 50))"
    by (subst repulsion_near) (simp_all add: l n bAmCloseEnough_Fin, simp add: Vector3_def)
  from z_force_from_y [OF c, of "Fin 0.02"] a r show ?thesis
    by (simp add: l bAmCloseEnough_Fin)
qed

text \<open>
  C5 as the specification states it, with the minus sign in both helpers, fails for
  \<^verbatim>\<open>repulsion\<close>: for a particle at \<open>(0, 100, 0)\<close> with no force, the centre at the
  origin, radius 200 and scale 0.02, \<^verbatim>\<open>repulsion\<close> writes \<open>force.z = 1/50\<close>, and
  \<open>force.y - diff.y * scale * pct\<close> is 0.
\<close>

theorem repulsion_z_sign_counterexample:
  "bAmCloseEnough (Fin 200) (lengthV (Vector3 (Fin 0 - Fin 0) (Fin 100 - Fin 0) (Fin 0 - Fin 0))) \<and>
   z (force (repulsion
           \<lparr>x = Fin 0, y = Fin 100, z = Fin 0, velocity = Vector3 (Fin 0) (Fin 0) (Fin 0),
            force = Vector3 (Fin 0) (Fin 0) (Fin 0), friction = Fin 0.01, mass = Fin 1\<rparr>
           (Fin 0) (Fin 0) (Fin 0) (Fin 200) (Fin 0.02))) = Fin (1 / 50) \<and>
   y (force (repulsion
           \<lparr>x = Fin 0, y = Fin 100, z = Fin 0, velocity = Vector3 (Fin 0) (Fin 0) (Fin 0),
            force = Vector3 (Fin 0) (Fin 0) (Fin 0), friction = Fin 0.01, mass = Fin 1\<rparr>
           (Fin 0) (Fin 0) (Fin 0) (Fin 200) (Fin 0.02)))
     - y (normalizeV (Vector3 (Fin 0 - Fin 0) (Fin 100 - Fin 0) (Fin 0 - Fin 0))) * Fin 0.02 *
       (Fin 1 - lengthV (Vector3 (Fin 0 - Fin 0) (Fin 100 - Fin 0) (Fin 0 - Fin 0)) / Fin 200) = Fin 0"
proof -
  let ?v = "\<lparr>x = Fin 0, y = Fin 100, z = Fin 0, velocity = Vector3 (Fin 0) (Fin 0) (Fin 0),
            force = Vector3 (Fin 0) (Fin 0) (Fin 0), friction = Fin 0.01, mass = Fin 1\<rparr>"
  have l: "lengthV (Vector3 (Fin 0) (Fin 100) (Fin 0)) = Fin 100"
    using lengthV_axis(2) [of 100] by simp
  have n: "normalizeV (Vector3 (Fin 0) (Fin 100) (Fin 0)) = Vector3 (Fin 0) (Fin 1) (Fin 0)"
    using normalizeV_axis(2) [of 100] by simp
  have r: "force (repulsion ?v (Fin 0) (Fin 0) (Fin 0) (Fin 200) (Fin 0.02))
      = Vector3 (Fin 0) (Fin (1 / 100)) (Fin (1 / 50))"
    by (subst repulsion_near) (simp_all add: l n bAmCloseEnough_Fin, simp add: Vector3_def)
  show ?thesis unfolding r by (simp add: l n bAmCloseEnough_Fin) (simp add: Vector3_def)
qed

section \<open>Facts about the attraction of particles of real numbers\<close>

lemma finVertex_fields [simp]:
  "x (finVertex r) = Fin (x r)" "y (finVertex r) = Fin (y r)" "z (finVertex r) = Fin (z r)"
  "force (finVertex r) = finV (force r)" "velocity (finVertex r) = finV (velocity r)"
  "friction (finVertex r) = Fin (friction r)" "mass (finVertex r) = Fin (mass r)"
  by (simp_all add: finVertex_def)

lemma finV_fields [simp]:
  "x (finV u) = Fin (x u)" "y (finV u) = Fin (y u)" "z (finV u) = Fin (z u)"
  by (simp_all add: finV_def)







section \<open>The falloff of the attraction\<close>




section \<open>Facts about the radius 0\<close>

lemma pct_zero_radius: "\<not> isFinite (Fin 1 - Fin l / Fin 0)"
  by (simp add: minus_jsnum_def)

lemma minus_not_finite: "\<not> isFinite p \<Longrightarrow> \<not> isFinite (a - Fin q * p)"
  by (cases a; cases p) (simp_all add: minus_jsnum_def)

lemma plus_not_finite: "\<not> isFinite p \<Longrightarrow> \<not> isFinite (a + Fin q * p)"
  by (cases a; cases p) simp_all

lemma times_Fin: "Fin a * Fin b = Fin (a * b)"
  by simp

lemma not_finite_neq: "\<not> isFinite a \<Longrightarrow> a \<noteq> Fin b"
  by (cases a) simp_all

lemma zero_radius_attraction_force:
  "\<not> isFinite (x (force (attraction (finVertex rv) (Fin cx) (Fin cy) (Fin cz) (Fin 0) (Fin rs))))"
  "\<not> isFinite (y (force (attraction (finVertex rv) (Fin cx) (Fin cy) (Fin cz) (Fin 0) (Fin rs))))"
  "\<not> isFinite (z (force (attraction (finVertex rv) (Fin cx) (Fin cy) (Fin cz) (Fin 0) (Fin rs))))"
proof -
  define L where "L = sqrt ((x rv - cx) * (x rv - cx) + (y rv - cy) * (y rv - cy) +
                            (z rv - cz) * (z rv - cz))"
  define k where "k = (if L = 0 then 1 else L)"
  have c: "bAmCloseEnough (Fin 0) (lengthV (Vector3 (x (finVertex rv) - Fin cx)
             (y (finVertex rv) - Fin cy) (z (finVertex rv) - Fin cz)))"
    by (simp add: bAmCloseEnough_def)
  have l: "lengthV (Vector3 (x (finVertex rv) - Fin cx) (y (finVertex rv) - Fin cy)
                            (z (finVertex rv) - Fin cz)) = Fin L"
    by (simp add: lengthV_Fin L_def)
  have n: "normalizeV (Vector3 (x (finVertex rv) - Fin cx) (y (finVertex rv) - Fin cy)
                               (z (finVertex rv) - Fin cz)) =
           Vector3 (Fin ((x rv - cx) * (1 / k))) (Fin ((y rv - cy) * (1 / k)))
                   (Fin ((z rv - cz) * (1 / k)))"
    by (simp add: normalizeV_Fin L_def k_def)
  note p = pct_zero_radius [of L]
  have f: "force (attraction (finVertex rv) (Fin cx) (Fin cy) (Fin cz) (Fin 0) (Fin rs)) =
     \<lparr>x = Fin (x (force rv)) - Fin ((x rv - cx) * (1 / k) * rs) * (Fin 1 - Fin L / Fin 0),
      y = Fin (y (force rv)) - Fin ((y rv - cy) * (1 / k) * rs) * (Fin 1 - Fin L / Fin 0),
      z = Fin (y (force rv)) - Fin ((y rv - cy) * (1 / k) * rs) * (Fin 1 - Fin L / Fin 0)
          - Fin ((y rv - cy) * (1 / k) * rs) * (Fin 1 - Fin L / Fin 0)\<rparr>"
    unfolding attraction_near [OF c] l n
    by (simp add: Vector3_def del: divide_jsnum.simps)
  show "\<not> isFinite (x (force (attraction (finVertex rv) (Fin cx) (Fin cy) (Fin cz) (Fin 0) (Fin rs))))"
    unfolding f using minus_not_finite [OF p] by simp
  show "\<not> isFinite (y (force (attraction (finVertex rv) (Fin cx) (Fin cy) (Fin cz) (Fin 0) (Fin rs))))"
    unfolding f using minus_not_finite [OF p] by simp
  show "\<not> isFinite (z (force (attraction (finVertex rv) (Fin cx) (Fin cy) (Fin cz) (Fin 0) (Fin rs))))"
    unfolding f using minus_not_finite [OF p] by simp
qed

lemma zero_radius_repulsion_force:
  "\<not> isFinite (x (force (repulsion (finVertex rv) (Fin cx) (Fin cy) (Fin cz) (Fin 0) (Fin rs))))"
  "\<not> isFinite (y (force (repulsion (finVertex rv) (Fin cx) (Fin cy) (Fin cz) (Fin 0) (Fin rs))))"
  "\<not> isFinite (z (force (repulsion (finVertex rv) (Fin cx) (Fin cy) (Fin cz) (Fin 0) (Fin rs))))"
proof -
  define L where "L = sqrt ((x rv - cx) * (x rv - cx) + (y rv - cy) * (y rv - cy) +
                            (z rv - cz) * (z rv - cz))"
  define k where "k = (if L = 0 then 1 else L)"
  have c: "bAmCloseEnough (Fin 0) (lengthV (Vector3 (x (finVertex rv) - Fin cx)
             (y (finVertex rv) - Fin cy) (z (finVertex rv) - Fin cz)))"
    by (simp add: bAmCloseEnough_def)
  have l: "lengthV (Vector3 (x (finVertex rv) - Fin cx) (y (finVertex rv) - Fin cy)
                            (z (finVertex rv) - Fin cz)) = Fin L"
    by (simp add: lengthV_Fin L_def)
  have n: "normalizeV (Vector3 (x (finVertex rv) - Fin cx) (y (finVertex rv) - Fin cy)
                               (z (finVertex rv) - Fin cz)) =
           Vector3 (Fin ((x rv - cx) * (1 / k))) (Fin ((y rv - cy) * (1 / k)))
                   (Fin ((z rv - cz) * (1 / k)))"
    by (simp add: normalizeV_Fin L_def k_def)
  note p = pct_zero_radius [of L]
  have f: "force (repulsion (finVertex rv) (Fin cx) (Fin cy) (Fin cz) (Fin 0) (Fin rs)) =
     \<lparr>x = Fin (x (force rv)) + Fin ((x rv - cx) * (1 / k) * rs) * (Fin 1 - Fin L / Fin 0),
      y = Fin (y (force rv)) + Fin ((y rv - cy) * (1 / k) * rs) * (Fin 1 - Fin L / Fin 0),
      z = Fin (y (force rv)) + Fin ((y rv - cy) * (1 / k) * rs) * (Fin 1 - Fin L / Fin 0)
          + Fin ((y rv - cy) * (1 / k) * rs) * (Fin 1 - Fin L / Fin 0)\<rparr>"
    unfolding repulsion_near [OF c] l n
    by (simp add: Vector3_def del: divide_jsnum.simps)
  show "\<not> isFinite (x (force (repulsion (finVertex rv) (Fin cx) (Fin cy) (Fin cz) (Fin 0) (Fin rs))))"
    unfolding f using plus_not_finite [OF p] by simp
  show "\<not> isFinite (y (force (repulsion (finVertex rv) (Fin cx) (Fin cy) (Fin cz) (Fin 0) (Fin rs))))"
    unfolding f using plus_not_finite [OF p] by simp
  show "\<not> isFinite (z (force (repulsion (finVertex rv) (Fin cx) (Fin cy) (Fin cz) (Fin 0) (Fin rs))))"
    unfolding f using plus_not_finite [OF p] by simp
qed

lemma attraction_zero_radius:
  "attraction v fx fy fz (Fin 0) s =
     v\<lparr>force :=
       \<lparr>x = x (force v) - x (normalizeV (Vector3 (x v - fx) (y v - fy) (z v - fz))) * s *
              (Fin 1 - lengthV (Vector3 (x v - fx) (y v - fy) (z v - fz)) / Fin 0),
        y = y (force v) - y (normalizeV (Vector3 (x v - fx) (y v - fy) (z v - fz))) * s *
              (Fin 1 - lengthV (Vector3 (x v - fx) (y v - fy) (z v - fz)) / Fin 0),
        z = y (force v) - y (normalizeV (Vector3 (x v - fx) (y v - fy) (z v - fz))) * s *
              (Fin 1 - lengthV (Vector3 (x v - fx) (y v - fy) (z v - fz)) / Fin 0)
            - y (normalizeV (Vector3 (x v - fx) (y v - fy) (z v - fz))) * s *
              (Fin 1 - lengthV (Vector3 (x v - fx) (y v - fy) (z v - fz)) / Fin 0)\<rparr>\<rparr>"
  by (simp add: attraction_def Let_def Vector3_def bAmCloseEnough_def)

lemma repulsion_zero_radius:
  "repulsion v fx fy fz (Fin 0) s =
     v\<lparr>force :=
       \<lparr>x = x (force v) + x (normalizeV (Vector3 (x v - fx) (y v - fy) (z v - fz))) * s *
              (Fin 1 - lengthV (Vector3 (x v - fx) (y v - fy) (z v - fz)) / Fin 0),
        y = y (force v) + y (normalizeV (Vector3 (x v - fx) (y v - fy) (z v - fz))) * s *
              (Fin 1 - lengthV (Vector3 (x v - fx) (y v - fy) (z v - fz)) / Fin 0),
        z = y (force v) + y (normalizeV (Vector3 (x v - fx) (y v - fy) (z v - fz))) * s *
              (Fin 1 - lengthV (Vector3 (x v - fx) (y v - fy) (z v - fz)) / Fin 0)
            + y (normalizeV (Vector3 (x v - fx) (y v - fy) (z v - fz))) * s *
              (Fin 1 - lengthV (Vector3 (x v - fx) (y v - fy) (z v - fz)) / Fin 0)\<rparr>\<rparr>"
  by (simp add: repulsion_def Let_def Vector3_def bAmCloseEnough_def)

lemma finVertex_force_finite: "isFinite (x (force (finVertex rv)))"
  by simp

lemma zero_radius_attraction_changes:
  "attraction (finVertex rv) (Fin cx) (Fin cy) (Fin cz) (Fin 0) (Fin rs) \<noteq> finVertex rv"
proof
  assume "attraction (finVertex rv) (Fin cx) (Fin cy) (Fin cz) (Fin 0) (Fin rs) = finVertex rv"
  with zero_radius_attraction_force(1) [of rv cx cy cz rs] finVertex_force_finite [of rv]
  show False by simp
qed

lemma zero_radius_repulsion_changes:
  "repulsion (finVertex rv) (Fin cx) (Fin cy) (Fin cz) (Fin 0) (Fin rs) \<noteq> finVertex rv"
proof
  assume "repulsion (finVertex rv) (Fin cx) (Fin cy) (Fin cz) (Fin 0) (Fin rs) = finVertex rv"
  with zero_radius_repulsion_force(1) [of rv cx cy cz rs] finVertex_force_finite [of rv]
  show False by simp
qed

section \<open>The radius 0\<close>

text \<open>
  C7, as amended. With the radius 0 a force helper neither raises an error nor skips its
  contribution: the test of the distance is bypassed, the in-radius branch runs whatever
  the distance is, and \<^verbatim>\<open>pct\<close> is \<open>1 - dlen / 0\<close>. The helper returns the particle with
  the force accumulator that this branch writes, and nothing else of it changed. For a
  particle, a centre and a scale of real numbers, \<^verbatim>\<open>pct\<close> is \<open>-Infinity\<close> or \<open>NaN\<close> and
  no component of the force written is finite, so the particle returned is not the one
  given. The call is given no other particle: a loop that calls the helper with radius 0
  on every particle of an array comes to its end, and the new state of each particle is
  that of the helper on its old state alone. (\<^verbatim>\<open>_vertexUpdate\<close> only ever passes the
  radii 900, 200, 500 and 300.)
\<close>

theorem zero_radius_local:
  "bAmCloseEnough (Fin 0) dlen \<and>
   attraction v fx fy fz (Fin 0) s =
     v\<lparr>force :=
       \<lparr>x = x (force v) - x (normalizeV (Vector3 (x v - fx) (y v - fy) (z v - fz))) * s *
              (Fin 1 - lengthV (Vector3 (x v - fx) (y v - fy) (z v - fz)) / Fin 0),
        y = y (force v) - y (normalizeV (Vector3 (x v - fx) (y v - fy) (z v - fz))) * s *
              (Fin 1 - lengthV (Vector3 (x v - fx) (y v - fy) (z v - fz)) / Fin 0),
        z = y (force v) - y (normalizeV (Vector3 (x v - fx) (y v - fy) (z v - fz))) * s *
              (Fin 1 - lengthV (Vector3 (x v - fx) (y v - fy) (z v - fz)) / Fin 0)
            - y (normalizeV (Vector3 (x v - fx) (y v - fy) (z v - fz))) * s *
              (Fin 1 - lengthV (Vector3 (x v - fx) (y v - fy) (z v - fz)) / Fin 0)\<rparr>\<rparr> \<and>
   repulsion v fx fy fz (Fin 0) s =
     v\<lparr>force :=
       \<lparr>x = x (force v) + x (normalizeV (Vector3 (x v - fx) (y v - fy) (z v - fz))) * s *
              (Fin 1 - lengthV (Vector3 (x v - fx) (y v - fy) (z v - fz)) / Fin 0),
        y = y (force v) + y (normalizeV (Vector3 (x v - fx) (y v - fy) (z v - fz))) * s *
              (Fin 1 - lengthV (Vector3 (x v - fx) (y v - fy) (z v - fz)) / Fin 0),
        z = y (force v) + y (normalizeV (Vector3 (x v - fx) (y v - fy) (z v - fz))) * s *
              (Fin 1 - lengthV (Vector3 (x v - fx) (y v - fy) (z v - fz)) / Fin 0)
            + y (normalizeV (Vector3 (x v - fx) (y v - fy) (z v - fz))) * s *
              (Fin 1 - lengthV (Vector3 (x v - fx) (y v - fy) (z v - fz)) / Fin 0)\<rparr>\<rparr> \<and>
   \<not> isFinite (x (force (attraction (finVertex rv) (Fin cx) (Fin cy) (Fin cz) (Fin 0) (Fin rs)))) \<and>
   \<not> isFinite (y (force (attraction (finVertex rv) (Fin cx) (Fin cy) (Fin cz) (Fin 0) (Fin rs)))) \<and>
   \<not> isFinite (z (force (attraction (finVertex rv) (Fin cx) (Fin cy) (Fin cz) (Fin 0) (Fin rs)))) \<and>
   \<not> isFinite (x (force (repulsion (finVertex rv) (Fin cx) (Fin cy) (Fin cz) (Fin 0) (Fin rs)))) \<and>
   \<not> isFinite (y (force (repulsion (finVertex rv) (Fin cx) (Fin cy) (Fin cz) (Fin 0) (Fin rs)))) \<and>
   \<not> isFinite (z (force (repulsion (finVertex rv) (Fin cx) (Fin cy) (Fin cz) (Fin 0) (Fin rs)))) \<and>
   attraction (finVertex rv) (Fin cx) (Fin cy) (Fin cz) (Fin 0) (Fin rs) \<noteq> finVertex rv \<and>
   repulsion (finVertex rv) (Fin cx) (Fin cy) (Fin cz) (Fin 0) (Fin rs) \<noteq> finVertex rv \<and>
   forEachIndex (\<lambda>particle. attraction particle fx fy fz (Fin 0) s) 0 (length vs) vs =
     Inr (map (\<lambda>particle. attraction particle fx fy fz (Fin 0) s) vs) \<and>
   forEachIndex (\<lambda>particle. repulsion particle fx fy fz (Fin 0) s) 0 (length vs) vs =
     Inr (map (\<lambda>particle. repulsion particle fx fy fz (Fin 0) s) vs)"
proof -
  have c: "bAmCloseEnough (Fin 0) dlen"
    by (simp add: bAmCloseEnough_def)
  note a = attraction_zero_radius [of v fx fy fz s]
  note r = repulsion_zero_radius [of v fx fy fz s]
  note fa = zero_radius_attraction_force [of rv cx cy cz rs]
  note fr = zero_radius_repulsion_force [of rv cx cy cz rs]
  note ca = zero_radius_attraction_changes [of rv cx cy cz rs]
  note cr = zero_radius_repulsion_changes [of rv cx cy cz rs]
  note la = forEachIndex_all [of "\<lambda>particle. attraction particle fx fy fz (Fin 0) s" vs]
  note lr = forEachIndex_all [of "\<lambda>particle. repulsion particle fx fy fz (Fin 0) s" vs]
  from c a r fa fr ca cr la lr show ?thesis
    by (intro conjI)
qed

lemma lengthV_3_4: "lengthV \<lparr>x = Fin 3, y = Fin 4, z = Fin 0\<rparr> = Fin 5"
proof -
  have "sqrt (25 :: real) = 5"
    by (rule real_sqrt_unique) simp_all
  then show ?thesis
    by (simp add: lengthV_def)
qed

lemma normalizeV_3_4:
  "normalizeV \<lparr>x = Fin 3, y = Fin 4, z = Fin 0\<rparr> = \<lparr>x = Fin (3 / 5), y = Fin (4 / 5), z = Fin 0\<rparr>"
  by (simp add: normalizeV_def divideScalar_def multiplyScalar_def orElse_def lengthV_3_4)

text \<open>
  C7 as the specification states it fails: for a particle at \<open>(3, 4, 0)\<close> with no force,
  the centre at the origin and scale 0.02, the helpers called with radius 0 divide the
  distance 5 by 0, which is \<open>+Infinity\<close>, and write the force
  \<open>(+Infinity, +Infinity, +Infinity)\<close>, respectively \<open>(-Infinity, -Infinity, -Infinity)\<close>:
  no error, and the contribution is not skipped.
\<close>

theorem zero_radius_counterexample:
  "lengthV (Vector3 (Fin 3 - Fin 0) (Fin 4 - Fin 0) (Fin 0 - Fin 0)) / Fin 0 = PosInf \<and>
   force (attraction
            \<lparr>x = Fin 3, y = Fin 4, z = Fin 0,
             velocity = \<lparr>x = Fin 0, y = Fin 0, z = Fin 0\<rparr>,
             force = \<lparr>x = Fin 0, y = Fin 0, z = Fin 0\<rparr>,
             friction = Fin 0.01, mass = Fin 1\<rparr>
            (Fin 0) (Fin 0) (Fin 0) (Fin 0) (Fin 0.02)) = \<lparr>x = PosInf, y = PosInf, z = PosInf\<rparr> \<and>
   force (repulsion
            \<lparr>x = Fin 3, y = Fin 4, z = Fin 0,
             velocity = \<lparr>x = Fin 0, y = Fin 0, z = Fin 0\<rparr>,
             force = \<lparr>x = Fin 0, y = Fin 0, z = Fin 0\<rparr>,
             friction = Fin 0.01, mass = Fin 1\<rparr>
            (Fin 0) (Fin 0) (Fin 0) (Fin 0) (Fin 0.02)) = \<lparr>x = NegInf, y = NegInf, z = NegInf\<rparr> \<and>
   attraction
            \<lparr>x = Fin 3, y = Fin 4, z = Fin 0,
             velocity = \<lparr>x = Fin 0, y = Fin 0, z = Fin 0\<rparr>,
             force = \<lparr>x = Fin 0, y = Fin 0, z = Fin 0\<rparr>,
             friction = Fin 0.01, mass = Fin 1\<rparr>
            (Fin 0) (Fin 0) (Fin 0) (Fin 0) (Fin 0.02) \<noteq>
            \<lparr>x = Fin 3, y = Fin 4, z = Fin 0,
             velocity = \<lparr>x = Fin 0, y = Fin 0, z = Fin 0\<rparr>,
             force = \<lparr>x = Fin 0, y = Fin 0, z = Fin 0\<rparr>,
             friction = Fin 0.01, mass = Fin 1\<rparr>"
  unfolding attraction_zero_radius repulsion_zero_radius
  by (simp add: lengthV_3_4 normalizeV_3_4 Vector3_def minus_jsnum_def)

section \<open>Facts about infinite and NaN components\<close>

lemma NaN_absorbs [simp]:
  "a + NaN = NaN" "a - NaN = NaN" "NaN - a = NaN" "a * NaN = NaN"
  by (cases a; simp add: minus_jsnum_def)+

lemma NaN_compares [simp]:
  "\<not> a < NaN" "\<not> a \<le> NaN"
  by (cases a; simp)+

lemma uminus_zero_jsnum: "- Fin 0 = Fin 0"
  by simp

lemma wrap_z_defaults:
  "z (wrap defaults w h u) = (if z u = NaN then NaN else Fin 0)"
  by (cases "z u") (simp_all add: wrap_z defaults_def)

lemma attraction_keeps_NaN:
  assumes "y (force v) = NaN" "z (force v) = NaN"
  shows "y (force (attraction v fx fy fz r s)) = NaN \<and> z (force (attraction v fx fy fz r s)) = NaN"
  using assms by (simp add: attraction_def Let_def)

lemma repulsion_keeps_NaN:
  assumes "y (force v) = NaN" "z (force v) = NaN"
  shows "y (force (repulsion v fx fy fz r s)) = NaN \<and> z (force (repulsion v fx fy fz r s)) = NaN"
  using assms by (simp add: repulsion_def Let_def)

lemma applyForces_keeps_NaN:
  assumes "y (force v) = NaN" "z (force v) = NaN"
  shows "y (force (applyForces ph v pof)) = NaN \<and> z (force (applyForces ph v pof)) = NaN"
  using assms
  by (cases ph) (simp_all add: applyForces_def attraction_keeps_NaN repulsion_keeps_NaN)

lemma recombine_infinite:
  assumes "y (velocity v) = PosInf" "y (force v) = PosInf" "z (velocity v) = PosInf"
    "z (force v) = PosInf" "friction v = Fin f" "0 < f"
  shows "y (force (recombine v dt)) = NaN \<and> z (force (recombine v dt)) = NaN"
  using assms by (simp add: recombine_def minus_jsnum_def)

lemma vertexUpdate_infinite:
  assumes "y (velocity v) = PosInf" "y (force v) = PosInf" "z (velocity v) = PosInf"
    "z (force v) = PosInf" "friction v = Fin f" "0 < f"
  shows "y (vertexUpdate d ph w h v pof dt) = NaN \<and> z (vertexUpdate d ph w h v pof dt) = NaN"
proof -
  let ?a = "applyForces ph (recombine v dt) pof"
  from applyForces_keeps_NaN [of "recombine v dt" ph pof] recombine_infinite [OF assms, of dt]
  have f: "y (force ?a) = NaN" "z (force ?a) = NaN"
    by simp_all
  have "y (integrate ?a dt) = NaN" "z (integrate ?a dt) = NaN"
    by (simp_all add: integrate_fields f)
  then show ?thesis
    by (simp add: vertexUpdate_def wrap_y wrap_z)
qed

section \<open>Facts about the first update of a canvas\<close>

lemma lengthV_record:
  "lengthV \<lparr>x = Fin a, y = Fin b, z = Fin c\<rparr> = Fin (sqrt (a * a + b * b + c * c))"
  using lengthV_Fin [of a b c] by (simp add: Vector3_def)

lemma lengthV_far:
  assumes "0 \<le> r" "r * r < a * a + b * b + c * c"
  shows "Fin r < lengthV \<lparr>x = Fin a, y = Fin b, z = Fin c\<rparr>"
proof -
  from assms(2) have "r\<^sup>2 < a * a + b * b + c * c"
    by (simp add: power2_eq_square)
  then have "r < sqrt (a * a + b * b + c * c)"
    by (rule real_less_rsqrt)
  then show ?thesis
    by (simp add: lengthV_record)
qed

lemma lengthV_y_axis: "lengthV \<lparr>x = Fin 0, y = Fin b, z = Fin 0\<rparr> = Fin \<bar>b\<bar>"
  by (simp add: lengthV_record)

lemma normalizeV_y_axis:
  "b \<noteq> 0 \<Longrightarrow> normalizeV \<lparr>x = Fin 0, y = Fin b, z = Fin 0\<rparr> = \<lparr>x = Fin 0, y = Fin (b / \<bar>b\<bar>), z = Fin 0\<rparr>"
  using normalizeV_axis(2) [of b] by (simp add: Vector3_def)

lemma first_centre:
  "centre defaults \<lparr>clockDelta = Fin 0, deltaTime = Fin 1, ww = w, wh = h\<rparr>
     (nextTick \<lparr>clockDelta = Fin 0, deltaTime = Fin 1, ww = w, wh = h\<rparr> constructor)
   = \<lparr>x = Fin 50, y = Fin 0, z = Fin 0\<rparr>"
  by (simp add: centre_def nextTick_def constructor_def defaults_def Vector3_def)

lemma first_forces:
  "applyForces Attraction
     (recombine
        \<lparr>x = Fin 50, y = Fin 300, z = Fin 0, velocity = \<lparr>x = Fin 0, y = Fin 0, z = Fin 0\<rparr>,
         force = \<lparr>x = Fin 0, y = Fin 0, z = Fin 0\<rparr>, friction = Fin 0.01, mass = Fin 1\<rparr>
        (Fin 1))
     \<lparr>x = Fin 50, y = Fin 0, z = Fin 0\<rparr> =
     \<lparr>x = Fin 50, y = Fin 300, z = Fin 0, velocity = \<lparr>x = Fin 0, y = Fin 0, z = Fin 0\<rparr>,
      force = \<lparr>x = Fin 0, y = Fin (- (1 / 75)), z = Fin (- (2 / 75))\<rparr>,
      friction = Fin 0.01, mass = Fin 1\<rparr>"
proof -
  let ?v = "\<lparr>x = Fin 50, y = Fin 300, z = Fin 0, velocity = \<lparr>x = Fin 0, y = Fin 0, z = Fin 0\<rparr>,
         force = \<lparr>x = Fin 0, y = Fin 0, z = Fin 0\<rparr>, friction = Fin (1 / 100), mass = Fin 1\<rparr>"
  let ?a = "\<lparr>x = Fin 50, y = Fin 300, z = Fin 0, velocity = \<lparr>x = Fin 0, y = Fin 0, z = Fin 0\<rparr>,
      force = \<lparr>x = Fin 0, y = Fin (- (1 / 75)), z = Fin (- (2 / 75))\<rparr>,
      friction = Fin (1 / 100), mass = Fin 1\<rparr>"
  have r: "recombine ?v (Fin 1) = ?v"
    by (simp add: recombine_def)
  have l: "lengthV \<lparr>x = Fin 0, y = Fin 300, z = Fin 0\<rparr> = Fin 300"
    using lengthV_y_axis [of 300] by simp
  have n: "normalizeV \<lparr>x = Fin 0, y = Fin 300, z = Fin 0\<rparr> = \<lparr>x = Fin 0, y = Fin 1, z = Fin 0\<rparr>"
    using normalizeV_y_axis [of 300] by simp
  have a: "attraction ?v (Fin 50) (Fin 0) (Fin 0) (Fin 900) (Fin (1 / 50)) = ?a"
    by (simp add: attraction_def Let_def Vector3_def l n bAmCloseEnough_Fin)
  have f: "Fin 200 < lengthV \<lparr>x = Fin 25, y = Fin 300, z = Fin 0\<rparr>"
    by (rule lengthV_far) simp_all
  have b: "repulsion ?a (Fin 25) (Fin 0) (Fin 0) (Fin 200) (Fin (1 / 50)) = ?a"
    using f by (simp add: repulsion_def Let_def Vector3_def bAmCloseEnough_def)
  show ?thesis
    by (simp add: applyForces_def r a) (simp add: b)
qed

lemma first_integrate:
  "integrate
     \<lparr>x = Fin 50, y = Fin 300, z = Fin 0, velocity = \<lparr>x = Fin 0, y = Fin 0, z = Fin 0\<rparr>,
      force = \<lparr>x = Fin 0, y = Fin (- (1 / 75)), z = Fin (- (2 / 75))\<rparr>,
      friction = Fin 0.01, mass = Fin 1\<rparr> (Fin 1) =
     \<lparr>x = Fin 50, y = Fin (300 - 41 / 7500), z = Fin (- (41 / 3750)),
      velocity = \<lparr>x = Fin 0, y = Fin (- (41 / 7500)), z = Fin (- (41 / 3750))\<rparr>,
      force = \<lparr>x = Fin 0, y = Fin (- (1 / 75)), z = Fin (- (2 / 75))\<rparr>,
      friction = Fin 0.01, mass = Fin 1\<rparr>"
  by (simp add: integrate_def Let_def)

lemma vertexUpdate_z_defaults:
  "z (vertexUpdate defaults phase w h v pof dt) = Fin 0 \<or>
   z (vertexUpdate defaults phase w h v pof dt) = NaN"
  by (simp add: vertexUpdate_def wrap_z_defaults)

lemma wrap_z_set:
  "z (wrap defaults w h (u\<lparr>z := Fin a\<rparr>)) = Fin 0 \<and>
   z (wrap defaults w h (u\<lparr>z := PosInf\<rparr>)) = Fin 0 \<and>
   z (wrap defaults w h (u\<lparr>z := NegInf\<rparr>)) = Fin 0 \<and>
   z (wrap defaults w h (u\<lparr>z := NaN\<rparr>)) = NaN"
  by (simp add: wrap_z_defaults)

section \<open>The plane of the default depth\<close>

text \<open>
  C10, as amended. With \<^verbatim>\<open>defaults.depth = 0\<close> the wrap, the last step of the update of
  a particle, sets every \<open>z\<close> that is positive, \<open>+Infinity\<close> included, to \<open>- 0\<close> and every
  \<open>z\<close> that is negative to \<open>0\<close>, and it leaves a \<open>z\<close> that is \<open>NaN\<close>, on which both tests
  are false. So after the update of a particle its \<open>z\<close> is 0 or \<open>NaN\<close>, whatever its
  force and velocity are, and \<open>NaN\<close> only if the \<open>z\<close> that the integration left was \<open>NaN\<close>;
  after every update of the canvas that returns every particle has \<open>z = 0\<close> or
  \<open>z = NaN\<close>.
\<close>

theorem default_plane:
  "(z (wrap defaults w h u) = Fin 0 \<or> z (wrap defaults w h u) = NaN \<and> z u = NaN) \<and>
   z (wrap defaults w h (u\<lparr>z := Fin a\<rparr>)) = Fin 0 \<and>
   z (wrap defaults w h (u\<lparr>z := PosInf\<rparr>)) = Fin 0 \<and>
   z (wrap defaults w h (u\<lparr>z := NegInf\<rparr>)) = Fin 0 \<and>
   z (wrap defaults w h (u\<lparr>z := NaN\<rparr>)) = NaN \<and>
   vertexUpdate defaults phase w h v pof dt =
     wrap defaults w h (integrate (applyForces phase (recombine v dt) pof) dt) \<and>
   (z (vertexUpdate defaults phase w h v pof dt) = Fin 0 \<or>
    z (vertexUpdate defaults phase w h v pof dt) = NaN) \<and>
   (update defaults fr c = Inr c' \<longrightarrow>
      (\<forall>i<len defaults. z (vertices c' ! i) = Fin 0 \<or> z (vertices c' ! i) = NaN))"
proof -
  have 1: "z (wrap defaults w h u) = Fin 0 \<or> z (wrap defaults w h u) = NaN \<and> z u = NaN"
    by (simp add: wrap_z_defaults)
  have 2: "vertexUpdate defaults phase w h v pof dt =
     wrap defaults w h (integrate (applyForces phase (recombine v dt) pof) dt)"
    by (simp add: vertexUpdate_def)
  have 3: "update defaults fr c = Inr c' \<longrightarrow>
      (\<forall>i<len defaults. z (vertices c' ! i) = Fin 0 \<or> z (vertices c' ! i) = NaN)"
    by (auto simp: update_nth vertexUpdate_def wrap_z_defaults)
  from 1 2 3 wrap_z_set [where w = w and h = h and u = u and a = a]
    vertexUpdate_z_defaults [of phase w h v pof dt]
  show ?thesis
    by blast
qed

text \<open>
  A canvas booted in a window of 800 by 600 with every particle at \<open>(50, 300, 0)\<close>, in its
  first update: the force along \<open>z\<close>, written from \<open>y\<close>, takes \<open>z\<close> to \<open>- 41/3750\<close>, and
  the wrap sets it to 0.
\<close>

theorem default_plane_witness:
  "\<exists>c0 c1.
     boot defaults (Fin 800) (Fin 600) (\<lambda>k. if k mod 3 = 0 then Fin (17 / 32) else Fin (3 / 4))
       constructor = Inr c0 \<and>
     update defaults \<lparr>clockDelta = Fin 0, deltaTime = Fin 1, ww = Fin 800, wh = Fin 600\<rparr> c0
       = Inr c1 \<and>
     x (vertices c0 ! 0) = Fin 50 \<and> y (vertices c0 ! 0) = Fin 300 \<and> z (vertices c0 ! 0) = Fin 0 \<and>
     posOfForce c1 = \<lparr>x = Fin 50, y = Fin 0, z = Fin 0\<rparr> \<and>
     z (integrate (applyForces Attraction (recombine (vertices c0 ! 0) (Fin 1)) (posOfForce c1))
          (Fin 1)) = Fin (- (41 / 3750)) \<and>
     z (vertices c1 ! 0) = Fin 0 \<and> z (vertices c1 ! 9999) = Fin 0"
proof -
  let ?rnd = "\<lambda>k::nat. if k mod 3 = 0 then Fin (17 / 32) else Fin (3 / 4)"
  let ?c0 = "constructor\<lparr>vertices := map (newVertex defaults (Fin 800) (Fin 600) ?rnd)
                                        [0..<len defaults]\<rparr>"
  let ?fr = "\<lparr>clockDelta = Fin 0, deltaTime = Fin 1, ww = Fin 800, wh = Fin 600\<rparr>"
  let ?v = "\<lparr>x = Fin 50, y = Fin 300, z = Fin 0, velocity = \<lparr>x = Fin 0, y = Fin 0, z = Fin 0\<rparr>,
         force = \<lparr>x = Fin 0, y = Fin 0, z = Fin 0\<rparr>, friction = Fin 0.01, mass = Fin 1\<rparr>"
  have b: "boot defaults (Fin 800) (Fin 600) ?rnd constructor = Inr ?c0"
    by (simp add: boot_def)
  have "len defaults \<le> length (vertices ?c0)"
    by simp
  from update_total [OF this] obtain c1 where c1: "update defaults ?fr ?c0 = Inr c1"
    by blast
  have l: "0 < len defaults" "9999 < len defaults"
    by (simp_all add: defaults_def)
  have v0: "vertices ?c0 ! 0 = ?v"
    using l(1) by (simp add: newVertex_def randFloat_def Vector3_def defaults_def)
  have "nextTick ?fr ?c0 = nextTick ?fr constructor"
    by (simp add: nextTick_def)
  then have p: "posOfForce c1 = \<lparr>x = Fin 50, y = Fin 0, z = Fin 0\<rparr>"
    using update_Inr(5) [OF c1] first_centre [of "Fin 800" "Fin 600"] by simp
  have i: "z (integrate (applyForces Attraction (recombine (vertices ?c0 ! 0) (Fin 1))
                (posOfForce c1)) (Fin 1)) = Fin (- (41 / 3750))"
    unfolding v0 p first_forces first_integrate by simp
  let ?pre = "integrate (applyForces Attraction (recombine ?v (Fin 1))
                \<lparr>x = Fin 50, y = Fin 0, z = Fin 0\<rparr>) (Fin 1)"
  have pre: "?pre = ?pre\<lparr>z := Fin (- (41 / 3750))\<rparr>"
    unfolding first_forces first_integrate by simp
  note t = default_plane [where w = "Fin 800" and h = "Fin 600" and u = ?pre
      and a = "- (41 / 3750)" and phase = Attraction and v = ?v
      and pof = "\<lparr>x = Fin 50, y = Fin 0, z = Fin 0\<rparr>" and dt = "Fin 1"
      and fr = ?fr and c = ?c0 and c' = c1]
  have vj: "\<And>j. j < len defaults \<Longrightarrow> vertices ?c0 ! j = ?v"
    by (simp add: newVertex_def randFloat_def Vector3_def defaults_def)
  have u: "\<And>j. j < len defaults \<Longrightarrow> vertices c1 ! j =
     vertexUpdate defaults Attraction (Fin 800) (Fin 600) ?v \<lparr>x = Fin 50, y = Fin 0, z = Fin 0\<rparr>
       (Fin 1)"
    using update_nth [OF c1] vj p by (simp add: constructor_def)
  from t have "vertexUpdate defaults Attraction (Fin 800) (Fin 600) ?v
       \<lparr>x = Fin 50, y = Fin 0, z = Fin 0\<rparr> (Fin 1) = wrap defaults (Fin 800) (Fin 600) ?pre"
    by blast
  moreover from t have "z (wrap defaults (Fin 800) (Fin 600) (?pre\<lparr>z := Fin (- (41 / 3750))\<rparr>))
      = Fin 0"
    by blast
  ultimately have "z (vertexUpdate defaults Attraction (Fin 800) (Fin 600) ?v
       \<lparr>x = Fin 50, y = Fin 0, z = Fin 0\<rparr> (Fin 1)) = Fin 0"
    using pre by simp
  with u l have z0: "z (vertices c1 ! 0) = Fin 0"
    by simp
  from t c1 l(2) have "z (vertices c1 ! 9999) = Fin 0 \<or> z (vertices c1 ! 9999) = NaN"
    by blast
  moreover have "z (vertices c1 ! 9999) \<noteq> NaN"
    using u [OF l(2)] \<open>z (vertexUpdate defaults Attraction (Fin 800) (Fin 600) ?v
       \<lparr>x = Fin 50, y = Fin 0, z = Fin 0\<rparr> (Fin 1)) = Fin 0\<close> by simp
  ultimately have z1: "z (vertices c1 ! 9999) = Fin 0"
    by blast
  from b c1 v0 p i z0 z1 show ?thesis
    by (intro exI [of _ ?c0] exI [of _ c1]) simp
qed

section \<open>A force that is infinite\<close>

text \<open>
  The recombination of lines 475--479 multiplies the force, less the friction, by
  \<open>0.41 * deltaTime\<close> in every update. In the program a force that outgrows the range of
  the numbers becomes \<open>+Infinity\<close> or \<open>-Infinity\<close>; the exact arithmetic of this theory
  does not produce such a value from real numbers, so the particle below is given one,
  along \<open>y\<close>.
\<close>

lemma lengthV_x_axis: "lengthV \<lparr>x = Fin a, y = Fin 0, z = Fin 0\<rparr> = Fin \<bar>a\<bar>"
  by (simp add: lengthV_record)

lemma normalizeV_x_axis:
  "a \<noteq> 0 \<Longrightarrow> normalizeV \<lparr>x = Fin a, y = Fin 0, z = Fin 0\<rparr> = \<lparr>x = Fin (a / \<bar>a\<bar>), y = Fin 0, z = Fin 0\<rparr>"
  using normalizeV_axis(1) [of a] by (simp add: Vector3_def)

lemma overflow_forces:
  "applyForces Attraction
     (recombine
        \<lparr>x = Fin 0, y = Fin 0, z = Fin 0, velocity = \<lparr>x = Fin 0, y = Fin 0, z = Fin 0\<rparr>,
         force = \<lparr>x = Fin 0, y = PosInf, z = Fin 0\<rparr>, friction = Fin 0.01, mass = Fin 1\<rparr>
        (Fin 1))
     \<lparr>x = Fin 50, y = Fin 0, z = Fin 0\<rparr> =
     \<lparr>x = Fin 0, y = Fin 0, z = Fin 0, velocity = \<lparr>x = Fin 0, y = Fin 0, z = Fin 0\<rparr>,
      force = \<lparr>x = Fin (1 / 720), y = PosInf, z = PosInf\<rparr>, friction = Fin 0.01, mass = Fin 1\<rparr>"
proof -
  let ?v = "\<lparr>x = Fin 0, y = Fin 0, z = Fin 0, velocity = \<lparr>x = Fin 0, y = Fin 0, z = Fin 0\<rparr>,
         force = \<lparr>x = Fin 0, y = PosInf, z = Fin 0\<rparr>, friction = Fin (1 / 100), mass = Fin 1\<rparr>"
  let ?a = "\<lparr>x = Fin 0, y = Fin 0, z = Fin 0, velocity = \<lparr>x = Fin 0, y = Fin 0, z = Fin 0\<rparr>,
      force = \<lparr>x = Fin (17 / 900), y = PosInf, z = PosInf\<rparr>, friction = Fin (1 / 100),
      mass = Fin 1\<rparr>"
  let ?b = "\<lparr>x = Fin 0, y = Fin 0, z = Fin 0, velocity = \<lparr>x = Fin 0, y = Fin 0, z = Fin 0\<rparr>,
      force = \<lparr>x = Fin (1 / 720), y = PosInf, z = PosInf\<rparr>, friction = Fin (1 / 100),
      mass = Fin 1\<rparr>"
  have r: "recombine ?v (Fin 1) = ?v"
    by (simp add: recombine_def minus_jsnum_def)
  have l: "lengthV \<lparr>x = Fin (- 50), y = Fin 0, z = Fin 0\<rparr> = Fin 50"
    "lengthV \<lparr>x = Fin (- 25), y = Fin 0, z = Fin 0\<rparr> = Fin 25"
    using lengthV_x_axis [of "- 50"] lengthV_x_axis [of "- 25"] by simp_all
  have n: "normalizeV \<lparr>x = Fin (- 50), y = Fin 0, z = Fin 0\<rparr> = \<lparr>x = Fin (- 1), y = Fin 0, z = Fin 0\<rparr>"
    "normalizeV \<lparr>x = Fin (- 25), y = Fin 0, z = Fin 0\<rparr> = \<lparr>x = Fin (- 1), y = Fin 0, z = Fin 0\<rparr>"
    using normalizeV_x_axis [of "- 50"] normalizeV_x_axis [of "- 25"] by simp_all
  have a: "attraction ?v (Fin 50) (Fin 0) (Fin 0) (Fin 900) (Fin (1 / 50)) = ?a"
    by (simp add: attraction_def Let_def Vector3_def l n bAmCloseEnough_Fin minus_jsnum_def)
  have b: "repulsion ?a (Fin 25) (Fin 0) (Fin 0) (Fin 200) (Fin (1 / 50)) = ?b"
    by (simp add: repulsion_def Let_def Vector3_def l n bAmCloseEnough_Fin minus_jsnum_def)
  show ?thesis
    by (simp add: applyForces_def r a) (simp add: b)
qed

lemma overflow_step:
  "vertexUpdate defaults Attraction (Fin 800) (Fin 600)
     \<lparr>x = Fin 0, y = Fin 0, z = Fin 0, velocity = \<lparr>x = Fin 0, y = Fin 0, z = Fin 0\<rparr>,
      force = \<lparr>x = Fin 0, y = PosInf, z = Fin 0\<rparr>, friction = Fin 0.01, mass = Fin 1\<rparr>
     \<lparr>x = Fin 50, y = Fin 0, z = Fin 0\<rparr> (Fin 1) =
   \<lparr>x = Fin (41 / 72000), y = Fin (- 600), z = Fin 0,
    velocity = \<lparr>x = Fin (41 / 72000), y = PosInf, z = PosInf\<rparr>,
    force = \<lparr>x = Fin (1 / 720), y = PosInf, z = PosInf\<rparr>, friction = Fin 0.01, mass = Fin 1\<rparr>"
  unfolding vertexUpdate_def overflow_forces
  by (simp add: integrate_def wrap_def Let_def defaults_def)

text \<open>
  C10 as the specification states it fails: a particle at the origin whose \<^verbatim>\<open>force.y\<close>
  is \<open>+Infinity\<close>, with the position of the force at \<open>(50, 0, 0)\<close> and \<open>deltaTime = 1\<close>, has
  \<open>z = 0\<close> after one update, with the velocity and the force \<open>+Infinity\<close> along \<open>z\<close>, and
  \<open>z = NaN\<close> after the next, in which the recombination computes
  \<open>Infinity - Infinity * friction\<close>.
\<close>

theorem default_plane_counterexample:
  "z (vertexUpdate defaults Attraction (Fin 800) (Fin 600)
        \<lparr>x = Fin 0, y = Fin 0, z = Fin 0, velocity = \<lparr>x = Fin 0, y = Fin 0, z = Fin 0\<rparr>,
         force = \<lparr>x = Fin 0, y = PosInf, z = Fin 0\<rparr>, friction = Fin 0.01, mass = Fin 1\<rparr>
        \<lparr>x = Fin 50, y = Fin 0, z = Fin 0\<rparr> (Fin 1)) = Fin 0 \<and>
   velocity (vertexUpdate defaults Attraction (Fin 800) (Fin 600)
        \<lparr>x = Fin 0, y = Fin 0, z = Fin 0, velocity = \<lparr>x = Fin 0, y = Fin 0, z = Fin 0\<rparr>,
         force = \<lparr>x = Fin 0, y = PosInf, z = Fin 0\<rparr>, friction = Fin 0.01, mass = Fin 1\<rparr>
        \<lparr>x = Fin 50, y = Fin 0, z = Fin 0\<rparr> (Fin 1))
     = \<lparr>x = Fin (41 / 72000), y = PosInf, z = PosInf\<rparr> \<and>
   z (vertexUpdate defaults Attraction (Fin 800) (Fin 600)
        (vertexUpdate defaults Attraction (Fin 800) (Fin 600)
           \<lparr>x = Fin 0, y = Fin 0, z = Fin 0, velocity = \<lparr>x = Fin 0, y = Fin 0, z = Fin 0\<rparr>,
            force = \<lparr>x = Fin 0, y = PosInf, z = Fin 0\<rparr>, friction = Fin 0.01, mass = Fin 1\<rparr>
           \<lparr>x = Fin 50, y = Fin 0, z = Fin 0\<rparr> (Fin 1))
        \<lparr>x = Fin 50, y = Fin 0, z = Fin 0\<rparr> (Fin 1)) = NaN \<and>
   z (vertexUpdate defaults Attraction (Fin 800) (Fin 600)
        (vertexUpdate defaults Attraction (Fin 800) (Fin 600)
           \<lparr>x = Fin 0, y = Fin 0, z = Fin 0, velocity = \<lparr>x = Fin 0, y = Fin 0, z = Fin 0\<rparr>,
            force = \<lparr>x = Fin 0, y = PosInf, z = Fin 0\<rparr>, friction = Fin 0.01, mass = Fin 1\<rparr>
           \<lparr>x = Fin 50, y = Fin 0, z = Fin 0\<rparr> (Fin 1))
        \<lparr>x = Fin 50, y = Fin 0, z = Fin 0\<rparr> (Fin 1)) \<noteq> Fin 0"
proof -
  let ?s = "\<lparr>x = Fin (41 / 72000), y = Fin (- 600), z = Fin 0,
    velocity = \<lparr>x = Fin (41 / 72000), y = PosInf, z = PosInf\<rparr>,
    force = \<lparr>x = Fin (1 / 720), y = PosInf, z = PosInf\<rparr>, friction = Fin 0.01, mass = Fin 1\<rparr>"
  have "z (vertexUpdate defaults Attraction (Fin 800) (Fin 600) ?s
             \<lparr>x = Fin 50, y = Fin 0, z = Fin 0\<rparr> (Fin 1)) = NaN"
    using vertexUpdate_infinite [of ?s "0.01" defaults Attraction "Fin 800" "Fin 600"
        "\<lparr>x = Fin 50, y = Fin 0, z = Fin 0\<rparr>" "Fin 1"]
    by simp
  then show ?thesis
    unfolding overflow_step by simp
qed

section \<open>The bounds of the field\<close>

lemma wrap_coordinates:
  assumes "0 \<le> w" "0 \<le> h" "0 \<le> depth d"
  shows "(x (wrap d w h u) = NaN \<and> x u = NaN \<or> - w \<le> x (wrap d w h u) \<and> x (wrap d w h u) \<le> w) \<and>
         (y (wrap d w h u) = NaN \<and> y u = NaN \<or> - h \<le> y (wrap d w h u) \<and> y (wrap d w h u) \<le> h) \<and>
         (z (wrap d w h u) = NaN \<and> z u = NaN \<or>
            - depth d \<le> z (wrap d w h u) \<and> z (wrap d w h u) \<le> depth d)"
  unfolding wrap_x wrap_y wrap_z
  using wrapped_in_bounds [OF assms(1), of "x u"] wrapped_in_bounds [OF assms(2), of "y u"]
    wrapped_in_bounds [OF assms(3), of "z u"]
  by (intro conjI)

lemma wrap_keeps_NaN:
  "x (wrap d w h (u\<lparr>x := NaN\<rparr>)) = NaN \<and> y (wrap d w h (u\<lparr>y := NaN\<rparr>)) = NaN \<and>
   z (wrap d w h (u\<lparr>z := NaN\<rparr>)) = NaN"
  by (simp add: wrap_x wrap_y wrap_z)

text \<open>
  C1, as amended. The bounds that \<^verbatim>\<open>_vertexUpdate\<close> tests are \<^verbatim>\<open>this.ww\<close> and
  \<^verbatim>\<open>this.wh\<close>, the full width and height of the window, and \<^verbatim>\<open>defaults.depth\<close>. The
  last step of the update of a particle is the wrap. After every call of the update that
  returns, for a window of non-negative size and a non-negative depth, every coordinate
  of every particle the loop visited is \<open>NaN\<close> or within its bounds: \<open>x\<close> in
  \<open>[- ww, ww]\<close>, \<open>y\<close> in \<open>[- wh, wh]\<close>, \<open>z\<close> in \<open>[- depth, depth]\<close>. This is so whatever
  state \<open>u\<close> the arithmetic before the wrap has left, infinite components included: after
  the wrap a coordinate is within its bounds unless it was \<open>NaN\<close> before, and a
  coordinate that is \<open>NaN\<close> passes all six tests and stays \<open>NaN\<close>.
\<close>

theorem boundary_containment:
  assumes "update d fr c = Inr c'" "0 \<le> ww fr" "0 \<le> wh fr" "0 \<le> depth d" "i < len d"
  shows "vertices c' ! i =
           wrap d (ww fr) (wh fr)
             (integrate (applyForces (forcePhase c) (recombine (vertices c ! i) (deltaTime fr))
                           (posOfForce c')) (deltaTime fr)) \<and>
         (x (vertices c' ! i) = NaN \<or>
            - ww fr \<le> x (vertices c' ! i) \<and> x (vertices c' ! i) \<le> ww fr) \<and>
         (y (vertices c' ! i) = NaN \<or>
            - wh fr \<le> y (vertices c' ! i) \<and> y (vertices c' ! i) \<le> wh fr) \<and>
         (z (vertices c' ! i) = NaN \<or>
            - depth d \<le> z (vertices c' ! i) \<and> z (vertices c' ! i) \<le> depth d) \<and>
         (x (wrap d (ww fr) (wh fr) u) = NaN \<and> x u = NaN \<or>
            - ww fr \<le> x (wrap d (ww fr) (wh fr) u) \<and> x (wrap d (ww fr) (wh fr) u) \<le> ww fr) \<and>
         (y (wrap d (ww fr) (wh fr) u) = NaN \<and> y u = NaN \<or>
            - wh fr \<le> y (wrap d (ww fr) (wh fr) u) \<and> y (wrap d (ww fr) (wh fr) u) \<le> wh fr) \<and>
         (z (wrap d (ww fr) (wh fr) u) = NaN \<and> z u = NaN \<or>
            - depth d \<le> z (wrap d (ww fr) (wh fr) u) \<and>
            z (wrap d (ww fr) (wh fr) u) \<le> depth d) \<and>
         x (wrap d (ww fr) (wh fr) (u\<lparr>x := NaN\<rparr>)) = NaN \<and>
         y (wrap d (ww fr) (wh fr) (u\<lparr>y := NaN\<rparr>)) = NaN \<and>
         z (wrap d (ww fr) (wh fr) (u\<lparr>z := NaN\<rparr>)) = NaN"
proof -
  let ?pre = "integrate (applyForces (forcePhase c) (recombine (vertices c ! i) (deltaTime fr))
                           (posOfForce c')) (deltaTime fr)"
  have e: "vertices c' ! i = wrap d (ww fr) (wh fr) ?pre"
    using update_nth [OF assms(1,5)] by (simp add: vertexUpdate_def)
  from wrap_coordinates [OF assms(2-4), of ?pre]
  have p: "(x (vertices c' ! i) = NaN \<or>
            - ww fr \<le> x (vertices c' ! i) \<and> x (vertices c' ! i) \<le> ww fr) \<and>
         (y (vertices c' ! i) = NaN \<or>
            - wh fr \<le> y (vertices c' ! i) \<and> y (vertices c' ! i) \<le> wh fr) \<and>
         (z (vertices c' ! i) = NaN \<or>
            - depth d \<le> z (vertices c' ! i) \<and> z (vertices c' ! i) \<le> depth d)"
    unfolding e by blast
  from e p wrap_coordinates [OF assms(2-4), of u] wrap_keeps_NaN [of d "ww fr" "wh fr" u]
  show ?thesis
    by blast
qed

lemma lengthV_720_300: "lengthV \<lparr>x = Fin 720, y = Fin 300, z = Fin 0\<rparr> = Fin 780"
proof -
  have "sqrt (608400 :: real) = 780"
    by (rule real_sqrt_unique) simp_all
  then show ?thesis
    by (simp add: lengthV_def)
qed

lemma normalizeV_720_300:
  "normalizeV \<lparr>x = Fin 720, y = Fin 300, z = Fin 0\<rparr> = \<lparr>x = Fin (12 / 13), y = Fin (5 / 13), z = Fin 0\<rparr>"
  by (simp add: normalizeV_def divideScalar_def multiplyScalar_def orElse_def lengthV_720_300)

lemma crossing_forces:
  "applyForces Attraction
     (recombine
        \<lparr>x = Fin 770, y = Fin 300, z = Fin 0, velocity = \<lparr>x = Fin 40, y = Fin 0, z = Fin 0\<rparr>,
         force = \<lparr>x = Fin 0, y = Fin 0, z = Fin 0\<rparr>, friction = Fin 0.01, mass = Fin 1\<rparr>
        (Fin 1))
     \<lparr>x = Fin 50, y = Fin 0, z = Fin 0\<rparr> =
     \<lparr>x = Fin 770, y = Fin 300, z = Fin 0, velocity = \<lparr>x = Fin 40, y = Fin 0, z = Fin 0\<rparr>,
      force = \<lparr>x = Fin (- (541 / 3250)), y = Fin (- (1 / 975)), z = Fin (- (2 / 975))\<rparr>,
      friction = Fin 0.01, mass = Fin 1\<rparr>"
proof -
  let ?v = "\<lparr>x = Fin 770, y = Fin 300, z = Fin 0, velocity = \<lparr>x = Fin 40, y = Fin 0, z = Fin 0\<rparr>,
         force = \<lparr>x = Fin 0, y = Fin 0, z = Fin 0\<rparr>, friction = Fin (1 / 100), mass = Fin 1\<rparr>"
  let ?r = "\<lparr>x = Fin 770, y = Fin 300, z = Fin 0, velocity = \<lparr>x = Fin 40, y = Fin 0, z = Fin 0\<rparr>,
         force = \<lparr>x = Fin (- (41 / 250)), y = Fin 0, z = Fin 0\<rparr>, friction = Fin (1 / 100),
         mass = Fin 1\<rparr>"
  let ?a = "\<lparr>x = Fin 770, y = Fin 300, z = Fin 0, velocity = \<lparr>x = Fin 40, y = Fin 0, z = Fin 0\<rparr>,
      force = \<lparr>x = Fin (- (541 / 3250)), y = Fin (- (1 / 975)), z = Fin (- (2 / 975))\<rparr>,
      friction = Fin (1 / 100), mass = Fin 1\<rparr>"
  have r: "recombine ?v (Fin 1) = ?r"
    by (simp add: recombine_def)
  have a: "attraction ?r (Fin 50) (Fin 0) (Fin 0) (Fin 900) (Fin (1 / 50)) = ?a"
    by (simp add: attraction_def Let_def Vector3_def lengthV_720_300 normalizeV_720_300
        bAmCloseEnough_Fin)
  have f: "Fin 200 < lengthV \<lparr>x = Fin 745, y = Fin 300, z = Fin 0\<rparr>"
    by (rule lengthV_far) simp_all
  have b: "repulsion ?a (Fin 25) (Fin 0) (Fin 0) (Fin 200) (Fin (1 / 50)) = ?a"
    using f by (simp add: repulsion_def Let_def Vector3_def bAmCloseEnough_def)
  show ?thesis
    by (simp add: applyForces_def r a) (simp add: b)
qed

lemma crossing_integrate:
  "integrate
     \<lparr>x = Fin 770, y = Fin 300, z = Fin 0, velocity = \<lparr>x = Fin 40, y = Fin 0, z = Fin 0\<rparr>,
      force = \<lparr>x = Fin (- (541 / 3250)), y = Fin (- (1 / 975)), z = Fin (- (2 / 975))\<rparr>,
      friction = Fin 0.01, mass = Fin 1\<rparr> (Fin 1) =
     \<lparr>x = Fin (770 + 12977819 / 325000), y = Fin (300 - 41 / 97500), z = Fin (- (41 / 48750)),
      velocity = \<lparr>x = Fin (12977819 / 325000), y = Fin (- (41 / 97500)), z = Fin (- (41 / 48750))\<rparr>,
      force = \<lparr>x = Fin (- (541 / 3250)), y = Fin (- (1 / 975)), z = Fin (- (2 / 975))\<rparr>,
      friction = Fin 0.01, mass = Fin 1\<rparr>"
  by (simp add: integrate_def Let_def)

text \<open>
  A canvas of 10000 particles at \<open>(770, 300, 0)\<close> with the velocity \<open>(40, 0, 0)\<close>, in a
  window of 800 by 600: the integration takes the particle to \<open>x > 800\<close> and \<open>z < 0\<close>, and
  the wrap sets \<open>x\<close> to \<open>- 800\<close> and \<open>z\<close> to 0.
\<close>

theorem boundary_containment_witness:
  "\<exists>c1.
     update defaults \<lparr>clockDelta = Fin 0, deltaTime = Fin 1, ww = Fin 800, wh = Fin 600\<rparr>
       (constructor\<lparr>vertices := replicate 10000
          \<lparr>x = Fin 770, y = Fin 300, z = Fin 0, velocity = \<lparr>x = Fin 40, y = Fin 0, z = Fin 0\<rparr>,
           force = \<lparr>x = Fin 0, y = Fin 0, z = Fin 0\<rparr>, friction = Fin 0.01, mass = Fin 1\<rparr>\<rparr>)
       = Inr c1 \<and>
     posOfForce c1 = \<lparr>x = Fin 50, y = Fin 0, z = Fin 0\<rparr> \<and>
     Fin 800 <
       x (integrate (applyForces Attraction
            (recombine
               \<lparr>x = Fin 770, y = Fin 300, z = Fin 0,
                velocity = \<lparr>x = Fin 40, y = Fin 0, z = Fin 0\<rparr>,
                force = \<lparr>x = Fin 0, y = Fin 0, z = Fin 0\<rparr>, friction = Fin 0.01, mass = Fin 1\<rparr>
               (Fin 1))
            (posOfForce c1)) (Fin 1)) \<and>
     z (integrate (applyForces Attraction
            (recombine
               \<lparr>x = Fin 770, y = Fin 300, z = Fin 0,
                velocity = \<lparr>x = Fin 40, y = Fin 0, z = Fin 0\<rparr>,
                force = \<lparr>x = Fin 0, y = Fin 0, z = Fin 0\<rparr>, friction = Fin 0.01, mass = Fin 1\<rparr>
               (Fin 1))
            (posOfForce c1)) (Fin 1)) < Fin 0 \<and>
     x (vertices c1 ! 0) = Fin (- 800) \<and>
     y (vertices c1 ! 0) = Fin (300 - 41 / 97500) \<and>
     z (vertices c1 ! 0) = Fin 0 \<and>
     - Fin 800 \<le> x (vertices c1 ! 0) \<and> x (vertices c1 ! 0) \<le> Fin 800 \<and>
     - Fin 600 \<le> y (vertices c1 ! 0) \<and> y (vertices c1 ! 0) \<le> Fin 600 \<and>
     - Fin 0 \<le> z (vertices c1 ! 0) \<and> z (vertices c1 ! 0) \<le> Fin 0"
proof -
  let ?v = "\<lparr>x = Fin 770, y = Fin 300, z = Fin 0, velocity = \<lparr>x = Fin 40, y = Fin 0, z = Fin 0\<rparr>,
           force = \<lparr>x = Fin 0, y = Fin 0, z = Fin 0\<rparr>, friction = Fin 0.01, mass = Fin 1\<rparr>"
  let ?c0 = "constructor\<lparr>vertices := replicate 10000 ?v\<rparr>"
  let ?fr = "\<lparr>clockDelta = Fin 0, deltaTime = Fin 1, ww = Fin 800, wh = Fin 600\<rparr>"
  let ?p = "\<lparr>x = Fin 50, y = Fin 0, z = Fin 0\<rparr>"
  have "len defaults \<le> length (vertices ?c0)"
    by (simp add: defaults_def)
  from update_total [OF this] obtain c1 where c1: "update defaults ?fr ?c0 = Inr c1"
    by blast
  have h: "0 \<le> ww ?fr" "0 \<le> wh ?fr" "0 \<le> depth defaults" "0 < len defaults"
    by (simp_all add: defaults_def zero_jsnum_def)
  have "nextTick ?fr ?c0 = nextTick ?fr constructor"
    by (simp add: nextTick_def)
  then have p: "posOfForce c1 = ?p"
    using update_Inr(5) [OF c1] first_centre [of "Fin 800" "Fin 600"] by simp
  have v0: "vertices ?c0 ! 0 = ?v" "forcePhase ?c0 = Attraction"
    by (simp_all add: constructor_def)
  have sel: "ww ?fr = Fin 800" "wh ?fr = Fin 600" "deltaTime ?fr = Fin 1"
    "depth defaults = Fin 0"
    by (simp_all add: defaults_def)
  note t = boundary_containment [OF c1 h, where u = ?v]
  from t have e: "vertices c1 ! 0 =
      wrap defaults (Fin 800) (Fin 600) (integrate (applyForces Attraction (recombine ?v (Fin 1)) ?p)
        (Fin 1))"
    unfolding v0 p sel by blast
  have x1: "x (vertices c1 ! 0) = Fin (- 800)" and y1: "y (vertices c1 ! 0) = Fin (300 - 41 / 97500)"
    and z1: "z (vertices c1 ! 0) = Fin 0"
    unfolding e crossing_forces crossing_integrate
    by (simp_all add: wrap_x wrap_y wrap_z defaults_def)
  from t have "(x (vertices c1 ! 0) = NaN \<or>
            - Fin 800 \<le> x (vertices c1 ! 0) \<and> x (vertices c1 ! 0) \<le> Fin 800) \<and>
         (y (vertices c1 ! 0) = NaN \<or>
            - Fin 600 \<le> y (vertices c1 ! 0) \<and> y (vertices c1 ! 0) \<le> Fin 600) \<and>
         (z (vertices c1 ! 0) = NaN \<or>
            - Fin 0 \<le> z (vertices c1 ! 0) \<and> z (vertices c1 ! 0) \<le> Fin 0)"
    unfolding sel by blast
  with x1 y1 z1 have bnd: "- Fin 800 \<le> x (vertices c1 ! 0) \<and> x (vertices c1 ! 0) \<le> Fin 800 \<and>
     - Fin 600 \<le> y (vertices c1 ! 0) \<and> y (vertices c1 ! 0) \<le> Fin 600 \<and>
     - Fin 0 \<le> z (vertices c1 ! 0) \<and> z (vertices c1 ! 0) \<le> Fin 0"
    by auto
  have pre: "Fin 800 < x (integrate (applyForces Attraction (recombine ?v (Fin 1)) (posOfForce c1))
                (Fin 1))"
    "z (integrate (applyForces Attraction (recombine ?v (Fin 1)) (posOfForce c1)) (Fin 1)) < Fin 0"
    unfolding p crossing_forces crossing_integrate by simp_all
  from c1 p pre x1 y1 z1 bnd show ?thesis
    by (intro exI [of _ c1]) blast
qed

lemma half_width_forces:
  "applyForces Attraction
     (recombine
        \<lparr>x = Fin 1200, y = Fin 900, z = Fin 0, velocity = \<lparr>x = Fin 0, y = Fin 0, z = Fin 0\<rparr>,
         force = \<lparr>x = Fin 0, y = Fin 0, z = Fin 0\<rparr>, friction = Fin 0.01, mass = Fin 1\<rparr>
        (Fin 1))
     \<lparr>x = Fin 50, y = Fin 0, z = Fin 0\<rparr> =
     \<lparr>x = Fin 1200, y = Fin 900, z = Fin 0, velocity = \<lparr>x = Fin 0, y = Fin 0, z = Fin 0\<rparr>,
      force = \<lparr>x = Fin 0, y = Fin 0, z = Fin 0\<rparr>, friction = Fin 0.01, mass = Fin 1\<rparr>"
proof -
  let ?v = "\<lparr>x = Fin 1200, y = Fin 900, z = Fin 0, velocity = \<lparr>x = Fin 0, y = Fin 0, z = Fin 0\<rparr>,
         force = \<lparr>x = Fin 0, y = Fin 0, z = Fin 0\<rparr>, friction = Fin (1 / 100), mass = Fin 1\<rparr>"
  have r: "recombine ?v (Fin 1) = ?v"
    by (simp add: recombine_def)
  have f: "Fin 900 < lengthV \<lparr>x = Fin 1150, y = Fin 900, z = Fin 0\<rparr>"
    "Fin 200 < lengthV \<lparr>x = Fin 1175, y = Fin 900, z = Fin 0\<rparr>"
    by (rule lengthV_far; simp)+
  have a: "attraction ?v (Fin 50) (Fin 0) (Fin 0) (Fin 900) (Fin (1 / 50)) = ?v"
    using f by (simp add: attraction_def Let_def Vector3_def bAmCloseEnough_def)
  have b: "repulsion ?v (Fin 25) (Fin 0) (Fin 0) (Fin 200) (Fin (1 / 50)) = ?v"
    using f by (simp add: repulsion_def Let_def Vector3_def bAmCloseEnough_def)
  show ?thesis
    by (simp add: applyForces_def r a) (simp add: b)
qed

text \<open>
  C1 as the specification states it fails twice. With the half width of the window as the
  bound: in a window 1600 wide and 1200 high, \<^verbatim>\<open>boot\<close> with \<^verbatim>\<open>Math.random()\<close>
  returning \<open>7/8\<close> puts every particle at \<open>(1200, 900, 0)\<close>; in the first update the
  position of the force is \<open>(50, 0, 0)\<close>, the particle is outside both radii, its force and
  velocity stay zero, and it stays at \<open>x = 1200\<close>, inside \<open>[- 1600, 1600]\<close> and beyond the
  half width 800. And with \<open>NaN\<close>: the particle whose \<^verbatim>\<open>force.y\<close> is \<open>+Infinity\<close> has
  \<open>y = NaN\<close> after its second update, which is within no bounds.
\<close>

theorem half_width_counterexample:
  "(\<exists>c0 c1. boot defaults (Fin 1600) (Fin 1200) (\<lambda>k. Fin (7 / 8)) constructor = Inr c0 \<and>
     update defaults \<lparr>clockDelta = Fin 0, deltaTime = Fin 1, ww = Fin 1600, wh = Fin 1200\<rparr> c0
       = Inr c1 \<and>
     x (vertices c0 ! 0) = Fin 1200 \<and> x (vertices c1 ! 0) = Fin 1200 \<and>
     \<not> x (vertices c1 ! 0) \<le> Fin 1600 * Fin 0.5) \<and>
   y (vertexUpdate defaults Attraction (Fin 800) (Fin 600)
        (vertexUpdate defaults Attraction (Fin 800) (Fin 600)
           \<lparr>x = Fin 0, y = Fin 0, z = Fin 0, velocity = \<lparr>x = Fin 0, y = Fin 0, z = Fin 0\<rparr>,
            force = \<lparr>x = Fin 0, y = PosInf, z = Fin 0\<rparr>, friction = Fin 0.01, mass = Fin 1\<rparr>
           \<lparr>x = Fin 50, y = Fin 0, z = Fin 0\<rparr> (Fin 1))
        \<lparr>x = Fin 50, y = Fin 0, z = Fin 0\<rparr> (Fin 1)) = NaN \<and>
   \<not> y (vertexUpdate defaults Attraction (Fin 800) (Fin 600)
        (vertexUpdate defaults Attraction (Fin 800) (Fin 600)
           \<lparr>x = Fin 0, y = Fin 0, z = Fin 0, velocity = \<lparr>x = Fin 0, y = Fin 0, z = Fin 0\<rparr>,
            force = \<lparr>x = Fin 0, y = PosInf, z = Fin 0\<rparr>, friction = Fin 0.01, mass = Fin 1\<rparr>
           \<lparr>x = Fin 50, y = Fin 0, z = Fin 0\<rparr> (Fin 1))
        \<lparr>x = Fin 50, y = Fin 0, z = Fin 0\<rparr> (Fin 1)) \<le> Fin 600"
proof -
  let ?rnd = "\<lambda>k::nat. Fin (7 / 8)"
  let ?c0 = "constructor\<lparr>vertices := map (newVertex defaults (Fin 1600) (Fin 1200) ?rnd)
                                        [0..<len defaults]\<rparr>"
  let ?fr = "\<lparr>clockDelta = Fin 0, deltaTime = Fin 1, ww = Fin 1600, wh = Fin 1200\<rparr>"
  let ?v = "\<lparr>x = Fin 1200, y = Fin 900, z = Fin 0, velocity = \<lparr>x = Fin 0, y = Fin 0, z = Fin 0\<rparr>,
         force = \<lparr>x = Fin 0, y = Fin 0, z = Fin 0\<rparr>, friction = Fin 0.01, mass = Fin 1\<rparr>"
  let ?p = "\<lparr>x = Fin 50, y = Fin 0, z = Fin 0\<rparr>"
  have b: "boot defaults (Fin 1600) (Fin 1200) ?rnd constructor = Inr ?c0"
    by (simp add: boot_def)
  have "len defaults \<le> length (vertices ?c0)"
    by simp
  from update_total [OF this] obtain c1 where c1: "update defaults ?fr ?c0 = Inr c1"
    by blast
  have l: "0 < len defaults"
    by (simp add: defaults_def)
  have v0: "vertices ?c0 ! 0 = ?v"
    using l by (simp add: newVertex_def randFloat_def Vector3_def defaults_def)
  have "nextTick ?fr ?c0 = nextTick ?fr constructor"
    by (simp add: nextTick_def)
  then have p: "posOfForce c1 = ?p"
    using update_Inr(5) [OF c1] first_centre [of "Fin 1600" "Fin 1200"] by simp
  have "vertices c1 ! 0 = vertexUpdate defaults Attraction (Fin 1600) (Fin 1200) ?v ?p (Fin 1)"
    using update_nth [OF c1 l] v0 p by (simp add: constructor_def)
  also have "x \<dots> = Fin 1200"
    unfolding vertexUpdate_def half_width_forces
    by (simp add: wrap_x integrate_def Let_def)
  finally have x1: "x (vertices c1 ! 0) = Fin 1200" .
  have x0: "x (vertices ?c0 ! 0) = Fin 1200"
    using v0 by simp
  have 1: "\<exists>c0 c1. boot defaults (Fin 1600) (Fin 1200) (\<lambda>k. Fin (7 / 8)) constructor = Inr c0 \<and>
     update defaults \<lparr>clockDelta = Fin 0, deltaTime = Fin 1, ww = Fin 1600, wh = Fin 1200\<rparr> c0
       = Inr c1 \<and>
     x (vertices c0 ! 0) = Fin 1200 \<and> x (vertices c1 ! 0) = Fin 1200 \<and>
     \<not> x (vertices c1 ! 0) \<le> Fin 1600 * Fin 0.5"
    using b c1 x0 x1 by (intro exI [of _ ?c0] exI [of _ c1]) simp
  let ?s = "\<lparr>x = Fin (41 / 72000), y = Fin (- 600), z = Fin 0,
    velocity = \<lparr>x = Fin (41 / 72000), y = PosInf, z = PosInf\<rparr>,
    force = \<lparr>x = Fin (1 / 720), y = PosInf, z = PosInf\<rparr>, friction = Fin 0.01, mass = Fin 1\<rparr>"
  have "y (vertexUpdate defaults Attraction (Fin 800) (Fin 600) ?s ?p (Fin 1)) = NaN"
    using vertexUpdate_infinite [of ?s "0.01" defaults Attraction "Fin 800" "Fin 600" ?p "Fin 1"]
    by simp
  then have 2: "y (vertexUpdate defaults Attraction (Fin 800) (Fin 600)
        (vertexUpdate defaults Attraction (Fin 800) (Fin 600)
           \<lparr>x = Fin 0, y = Fin 0, z = Fin 0, velocity = \<lparr>x = Fin 0, y = Fin 0, z = Fin 0\<rparr>,
            force = \<lparr>x = Fin 0, y = PosInf, z = Fin 0\<rparr>, friction = Fin 0.01, mass = Fin 1\<rparr>
           ?p (Fin 1)) ?p (Fin 1)) = NaN"
    unfolding overflow_step by simp
  from 1 2 show ?thesis
    by simp
qed

end
